theory Spec2Isabelle
  imports Complex_Main "HOL-Library.Char_ord" "HOL-Library.List_Lexorder"
    "HOL-Library.Product_Lexorder" "HOL-Library.Multiset"
begin

section \<open>Values and helpers of scripts/02\_transform.py\<close>

text \<open>
  Python floats are modelled as exact rationals; a cell that pandas reads as NaN is
  \<open>None\<close>. Strings are compared as Python compares them, character by character
  (the lexicographic order on \<open>char list\<close>). Tuples used as sort keys carry the
  lexicographic order on products, as Python tuples do.
\<close>

datatype py_error = SysExit int | ZeroDivisionError | IndexError | FileNotFoundError | EmptyDataError

definition bind_err :: "py_error + 'a \<Rightarrow> ('a \<Rightarrow> py_error + 'b) \<Rightarrow> py_error + 'b" where
  "bind_err r f = (case r of Inl e \<Rightarrow> Inl e | Inr v \<Rightarrow> f v)"

text \<open>Python's \<open>a / b\<close> on numbers: raises on a zero divisor.\<close>

definition py_truediv :: "rat \<Rightarrow> rat \<Rightarrow> py_error + rat" where
  "py_truediv a b = (if b = 0 then Inl ZeroDivisionError else Inr (a / b))"

text \<open>A list comprehension whose element expression may raise.\<close>

fun traverse :: "('a \<Rightarrow> py_error + 'b) \<Rightarrow> 'a list \<Rightarrow> py_error + 'b list" where
  "traverse f [] = Inr []"
| "traverse f (x # xs) = bind_err (f x) (\<lambda>y. bind_err (traverse f xs) (\<lambda>ys. Inr (y # ys)))"

text \<open>Python's \<open>round(x, d)\<close>: to the nearest multiple of \<open>10^-d\<close>, ties to even.\<close>

definition round_half_even :: "rat \<Rightarrow> int" where
  "round_half_even x =
     (let f = \<lfloor>x\<rfloor>; r = x - of_int f
      in if r < 1 / 2 then f else if 1 / 2 < r then f + 1 else if even f then f else f + 1)"

definition py_round :: "rat \<Rightarrow> nat \<Rightarrow> rat" where
  "py_round x d = of_int (round_half_even (x * 10 ^ d)) / 10 ^ d"

definition safe_int :: "int option \<Rightarrow> int" where
  "safe_int val = (case val of None \<Rightarrow> 0 | Some v \<Rightarrow> v)"

definition safe_float :: "rat option \<Rightarrow> nat \<Rightarrow> rat" where
  "safe_float val decimals = (case val of None \<Rightarrow> 0 | Some v \<Rightarrow> py_round v decimals)"

definition safe_str :: "string option \<Rightarrow> string" where
  "safe_str val = (case val of None \<Rightarrow> [] | Some v \<Rightarrow> v)"

section \<open>Standings engine\<close>

text \<open>One row of matches\_clean.csv, with the columns the modelled sections read.\<close>

record match_row =
  season :: string
  date :: string
  home_team :: string
  away_team :: string
  home_goals :: int
  away_goals :: int
  result :: string
  home_shots :: int
  away_shots :: int
  home_shots_on_target :: int
  away_shots_on_target :: int

text \<open>The dict built by \<open>build_team_stats\<close>; the key \<open>position\<close> is absent
  (\<open>None\<close>) until the table is ranked.\<close>

record team_row =
  team :: string
  played :: int
  won :: int
  drawn :: int
  lost :: int
  goals_for :: int
  goals_against :: int
  goal_difference :: int
  points :: int
  home_won :: int
  home_drawn :: int
  home_lost :: int
  away_won :: int
  away_drawn :: int
  away_lost :: int
  clean_sheets :: int
  total_shots :: int
  total_shots_on_target :: int
  shot_accuracy :: rat
  goals_per_game :: rat
  position :: "nat option"

definition len :: "'a list \<Rightarrow> int" where
  "len xs = int (length xs)"

definition build_team_stats :: "match_row list \<Rightarrow> string \<Rightarrow> py_error + team_row" where
  "build_team_stats team_matches team_name =
    (let home = filter (\<lambda>m. home_team m = team_name) team_matches;
         away = filter (\<lambda>m. away_team m = team_name) team_matches;
         hw = len (filter (\<lambda>m. result m = ''H'') home);
         hd = len (filter (\<lambda>m. result m = ''D'') home);
         hl = len (filter (\<lambda>m. result m = ''A'') home);
         aw = len (filter (\<lambda>m. result m = ''A'') away);
         ad = len (filter (\<lambda>m. result m = ''D'') away);
         al = len (filter (\<lambda>m. result m = ''H'') away);
         gf = safe_int (Some (sum_list (map home_goals home) + sum_list (map away_goals away)));
         ga = safe_int (Some (sum_list (map away_goals home) + sum_list (map home_goals away)));
         total_shots = safe_int (Some (sum_list (map home_shots home)
                                       + sum_list (map away_shots away)));
         total_sot = safe_int (Some (sum_list (map home_shots_on_target home)
                                     + sum_list (map away_shots_on_target away)))
     in bind_err
          (if total_shots > 0
           then bind_err (py_truediv (of_int total_sot) (of_int total_shots))
                  (\<lambda>q. Inr (safe_float (Some (q * 100)) 2))
           else Inr 0)
          (\<lambda>shot_acc.
     let cs_home = len (filter (\<lambda>m. away_goals m = 0) home);
         cs_away = len (filter (\<lambda>m. home_goals m = 0) away);
         played = hw + hd + hl + aw + ad + al;
         won = hw + aw;
         drawn = hd + ad;
         lost = hl + al;
         pts = won * 3 + drawn
     in bind_err
          (if played > 0
           then bind_err (py_truediv (of_int gf) (of_int played))
                  (\<lambda>q. Inr (safe_float (Some q) 2))
           else Inr 0)
          (\<lambda>gpg. Inr \<lparr>team = team_name, played = played, won = won, drawn = drawn,
             lost = lost, goals_for = gf, goals_against = ga, goal_difference = gf - ga,
             points = pts, home_won = hw, home_drawn = hd, home_lost = hl,
             away_won = aw, away_drawn = ad, away_lost = al,
             clean_sheets = cs_home + cs_away, total_shots = total_shots,
             total_shots_on_target = total_sot, shot_accuracy = shot_acc,
             goals_per_game = gpg, position = None\<rparr>)))"

text \<open>\<open>sorted(set(current['home_team'].unique()) | set(current['away_team'].unique()))\<close>\<close>

definition teams_of :: "match_row list \<Rightarrow> string list" where
  "teams_of current =
     sorted_list_of_set (set (map home_team current) \<union> set (map away_team current))"

definition table_key :: "team_row \<Rightarrow> int \<times> int \<times> int" where
  "table_key x = (- points x, - goal_difference x, - goals_for x)"

text \<open>\<open>for i, row in enumerate(table_rows): row['position'] = i + 1\<close>\<close>

definition assign_positions :: "team_row list \<Rightarrow> team_row list" where
  "assign_positions rows = map (\<lambda>(i, row). row\<lparr>position := Some (i + 1)\<rparr>) (enumerate 0 rows)"

text \<open>\<open>list.sort\<close> is stable, as is \<open>sort_key\<close>.\<close>

definition league_table :: "match_row list \<Rightarrow> py_error + team_row list" where
  "league_table current =
     bind_err (traverse (build_team_stats current) (teams_of current))
       (\<lambda>table_rows. Inr (assign_positions (sort_key table_key table_rows)))"

subsection \<open>Cumulative points\<close>

text \<open>
  \<open>Series.map(dict)\<close> yields NaN for a value that is not a key; \<open>cumsum\<close> skips NaN
  in the running sum and leaves NaN at that place. \<open>sort_values\<close> is modelled by the
  stable \<open>sort_key\<close>.
\<close>

definition home_pts :: "string \<rightharpoonup> int" where
  "home_pts = [''H'' \<mapsto> 3, ''D'' \<mapsto> 1, ''A'' \<mapsto> 0]"

definition away_pts :: "string \<rightharpoonup> int" where
  "away_pts = [''A'' \<mapsto> 3, ''D'' \<mapsto> 1, ''H'' \<mapsto> 0]"

fun cumsum :: "int \<Rightarrow> int option list \<Rightarrow> int option list" where
  "cumsum acc [] = []"
| "cumsum acc (None # xs) = None # cumsum acc xs"
| "cumsum acc (Some v # xs) = Some (acc + v) # cumsum (acc + v) xs"

record matchday_row =
  matchday :: nat
  cum_points :: int

definition all_matches :: "match_row list \<Rightarrow> string \<Rightarrow> (string \<times> int option) list" where
  "all_matches current team_name =
     (let current_sorted = sort_key date current;
          home_matches = filter (\<lambda>m. home_team m = team_name) current_sorted;
          away_matches = filter (\<lambda>m. away_team m = team_name) current_sorted
      in sort_key fst (map (\<lambda>m. (date m, home_pts (result m))) home_matches
                       @ map (\<lambda>m. (date m, away_pts (result m))) away_matches))"

definition cumulative_series :: "match_row list \<Rightarrow> string \<Rightarrow> matchday_row list" where
  "cumulative_series current team_name =
     map (\<lambda>(i, c). \<lparr>matchday = i + 1, cum_points = safe_int c\<rparr>)
       (enumerate 0 (cumsum 0 (map snd (all_matches current team_name))))"

definition cumulative_points :: "match_row list \<Rightarrow> (string \<times> matchday_row list) list" where
  "cumulative_points current =
     map (\<lambda>t. (t, cumulative_series current t)) (teams_of current)"

section \<open>Cross-source analytics: expected goals per team\<close>

text \<open>One row of xg\_teams.csv. A cell that is NaN, or whose column is absent so that
  \<open>row.get\<close> returns its default 0, is \<open>None\<close>: both \<open>safe_float\<close> and
  \<open>safe_int\<close> turn it into 0.\<close>

record xg_team_row =
  xt_team :: string
  xg_for :: "rat option"
  xg_against :: "rat option"
  xt_goals_for :: "int option"
  xt_goals_against :: "int option"

record xg_table_row =
  xr_team :: string
  xr_xg_for :: rat
  xr_xg_against :: rat
  xr_goals_for :: int
  xr_goals_against :: int
  xg_difference :: rat
  actual_points :: int

record xg_scatter_row =
  xs_team :: string
  total_xg :: rat
  actual_goals :: int
  difference :: rat

record shot_quality_row =
  sq_team :: string
  sq_total_shots :: int
  xg_per_shot :: rat

text \<open>The body of the loop over \<open>xg_teams_df.iterrows()\<close>: the row appended to
  \<open>xg_table_rows\<close>, the row appended to \<open>xg_scatter\<close>, and the row appended to
  \<open>shot_quality_rows\<close> when the guard lets one be appended.\<close>

definition xg_team_step ::
  "team_row list \<Rightarrow> xg_team_row \<Rightarrow> py_error + (xg_table_row \<times> xg_scatter_row \<times> shot_quality_row option)" where
  "xg_team_step table_rows row =
    (let team_name = xt_team row;
         xg_for_v = safe_float (xg_for row) 2;
         xg_against_v = safe_float (xg_against row) 2;
         goals_for_v = safe_int (xt_goals_for row);
         goals_against_v = safe_int (xt_goals_against row);
         xg_diff = xg_for_v - xg_against_v;
         actual_pts = (case find (\<lambda>tr. team tr = team_name) table_rows of
                         None \<Rightarrow> 0 | Some tr \<Rightarrow> points tr);
         table_row = \<lparr>xr_team = team_name, xr_xg_for = xg_for_v, xr_xg_against = xg_against_v,
                      xr_goals_for = goals_for_v, xr_goals_against = goals_against_v,
                      xg_difference = safe_float (Some xg_diff) 2,
                      actual_points = actual_pts\<rparr>;
         scatter_row = \<lparr>xs_team = team_name, total_xg = xg_for_v, actual_goals = goals_for_v,
                        difference = safe_float (Some (of_int goals_for_v - xg_for_v)) 2\<rparr>
     in case find (\<lambda>t. team t = team_name) table_rows of
          None \<Rightarrow> Inr (table_row, scatter_row, None)
        | Some team_table \<Rightarrow>
            if total_shots team_table > 0
            then bind_err (py_truediv xg_for_v (of_int (total_shots team_table)))
                   (\<lambda>q. Inr (table_row, scatter_row,
                              Some \<lparr>sq_team = team_name,
                                    sq_total_shots = total_shots team_table,
                                    xg_per_shot = safe_float (Some q) 3\<rparr>))
            else Inr (table_row, scatter_row, None))"

text \<open>The three lists after the loop; \<open>xg_table\<close> and \<open>shot_quality\<close> are sorted
  (stably) by descending xG difference and descending xG per shot.\<close>

definition xg_analytics ::
  "team_row list \<Rightarrow> xg_team_row list \<Rightarrow>
     py_error + (xg_table_row list \<times> xg_scatter_row list \<times> shot_quality_row list)" where
  "xg_analytics table_rows xg_teams_df =
     bind_err (traverse (xg_team_step table_rows) xg_teams_df)
       (\<lambda>steps. Inr (sort_key (\<lambda>x. - xg_difference x) (map fst steps),
                     map (\<lambda>s. fst (snd s)) steps,
                     sort_key (\<lambda>x. - xg_per_shot x) (List.map_filter (\<lambda>s. snd (snd s)) steps)))"

section \<open>Name reconciler\<close>

text \<open>
  A Python \<open>str\<close> is a list of characters. What the runtime's Unicode tables decide
  is a parameter: \<open>unicodedata.normalize('NFKD', s)\<close>, \<open>unicodedata.combining(c)\<close>
  (as a truth value), \<open>str.lower\<close> and which characters \<open>str.split()\<close> and
  \<open>str.strip()\<close> take for whitespace.
\<close>

record unicodedata =
  u_nfkd :: "string \<Rightarrow> string"
  u_combining :: "char \<Rightarrow> bool"
  u_lower :: "string \<Rightarrow> string"
  u_isspace :: "char \<Rightarrow> bool"

definition strip_accents :: "unicodedata \<Rightarrow> string \<Rightarrow> string" where
  "strip_accents u s = filter (\<lambda>c. \<not> u_combining u c) (u_nfkd u s)"

text \<open>\<open>s.split(sep)\<close> for a one-character separator: empty pieces are kept.\<close>

fun split_on :: "(char \<Rightarrow> bool) \<Rightarrow> string \<Rightarrow> string list" where
  "split_on p [] = [[]]"
| "split_on p (c # cs) =
     (if p c then [] # split_on p cs
      else (case split_on p cs of [] \<Rightarrow> [[c]] | w # ws \<Rightarrow> (c # w) # ws))"

text \<open>\<open>s.split()\<close>: pieces between runs of whitespace, none of them empty.\<close>

definition py_split :: "unicodedata \<Rightarrow> string \<Rightarrow> string list" where
  "py_split u s = filter (\<lambda>w. w \<noteq> []) (split_on (u_isspace u) s)"

definition py_strip :: "unicodedata \<Rightarrow> string \<Rightarrow> string" where
  "py_strip u s = rev (dropWhile (u_isspace u) (rev (dropWhile (u_isspace u) s)))"

definition py_rstrip :: "char \<Rightarrow> string \<Rightarrow> string" where
  "py_rstrip c s = rev (dropWhile (\<lambda>d. d = c) (rev s))"

text \<open>\<open>sub in s\<close> on strings.\<close>

definition py_in :: "string \<Rightarrow> string \<Rightarrow> bool" where
  "py_in sub s = list_ex (\<lambda>i. take (length sub) (drop i s) = sub) [0..<Suc (length s)]"

fun first_hit :: "('a \<Rightarrow> 'b option) \<Rightarrow> 'a list \<Rightarrow> 'b option" where
  "first_hit f [] = None"
| "first_hit f (x # xs) = (case f x of Some r \<Rightarrow> Some r | None \<Rightarrow> first_hit f xs)"

text \<open>One row of xg\_players.csv and the \<open>data\<close> dict built from it.\<close>

record xg_player_row =
  xp_player_name :: "string option"
  xp_team :: "string option"
  xp_xg :: "rat option"
  xp_xa :: "rat option"
  xp_shots :: "int option"
  xp_key_passes :: "int option"
  xp_npxg :: "rat option"

record xg_data =
  xg :: rat
  xa :: rat
  shots :: int
  key_passes :: int
  npxg :: rat

record xg_index =
  xg_by_name :: "(string \<times> string) \<rightharpoonup> xg_data"
  xg_by_last :: "(string \<times> string) \<rightharpoonup> xg_data"
  xg_by_team :: "string \<rightharpoonup> (string \<times> xg_data) list"

definition empty_index :: xg_index where
  "empty_index = \<lparr>xg_by_name = Map.empty, xg_by_last = Map.empty, xg_by_team = Map.empty\<rparr>"

definition xg_data_of :: "xg_player_row \<Rightarrow> xg_data" where
  "xg_data_of xr =
     \<lparr>xg = safe_float (xp_xg xr) 2, xa = safe_float (xp_xa xr) 2,
      shots = safe_int (xp_shots xr), key_passes = safe_int (xp_key_passes xr),
      npxg = safe_float (xp_npxg xr) 2\<rparr>"

definition name_norm_of :: "unicodedata \<Rightarrow> xg_player_row \<Rightarrow> string" where
  "name_norm_of u xr = u_lower u (strip_accents u (safe_str (xp_player_name xr)))"

definition last_of :: "unicodedata \<Rightarrow> xg_player_row \<Rightarrow> string" where
  "last_of u xr =
     (let name_norm = name_norm_of u xr; parts = py_split u name_norm
      in if parts \<noteq> [] then last parts else name_norm)"

text \<open>\<open>[t.strip() for t in teams_raw.split(',')]\<close>\<close>

definition teams_of_player :: "unicodedata \<Rightarrow> xg_player_row \<Rightarrow> string list" where
  "teams_of_player u xr =
     map (py_strip u) (split_on (\<lambda>c. c = CHR '','') (safe_str (xp_team xr)))"

text \<open>The body of \<open>for team in teams\<close>.\<close>

definition index_team ::
  "string \<Rightarrow> string \<Rightarrow> string \<Rightarrow> xg_data \<Rightarrow> string \<Rightarrow> xg_index \<Rightarrow> xg_index" where
  "index_team name last_name name_norm data team_name idx =
     \<lparr>xg_by_name = (xg_by_name idx)((name, team_name) \<mapsto> data),
      xg_by_last = (xg_by_last idx)((last_name, team_name) \<mapsto> data),
      xg_by_team = (xg_by_team idx)(team_name \<mapsto>
         (case xg_by_team idx team_name of None \<Rightarrow> [] | Some l \<Rightarrow> l) @ [(name_norm, data)])\<rparr>"

definition index_player :: "unicodedata \<Rightarrow> xg_player_row \<Rightarrow> xg_index \<Rightarrow> xg_index" where
  "index_player u xr idx =
     fold (index_team (safe_str (xp_player_name xr)) (last_of u xr) (name_norm_of u xr)
             (xg_data_of xr))
       (teams_of_player u xr) idx"

text \<open>The three lookup indexes; they stay empty when the xG source is not available
  (\<open>None\<close>). Rows without a player name are dropped first.\<close>

definition build_xg_index :: "unicodedata \<Rightarrow> xg_player_row list option \<Rightarrow> xg_index" where
  "build_xg_index u xg_players_df =
     (case xg_players_df of
        None \<Rightarrow> empty_index
      | Some rows \<Rightarrow>
          fold (index_player u) (filter (\<lambda>xr. xp_player_name xr \<noteq> None) rows) empty_index)"

text \<open>One row of players.csv.\<close>

record player_row =
  player_name :: "string option"
  full_name :: "string option"
  p_team :: string
  p_position :: string
  goals :: int
  assists :: int
  minutes :: int
  yellow_cards :: int
  red_cards :: int
  price :: rat

text \<open>\<open>enrich\<close> returns the matched \<open>data\<close> dict, or the empty dict \<open>{}\<close>, here
  \<open>None\<close>, whose every \<open>.get\<close> is null.\<close>

definition enrich :: "unicodedata \<Rightarrow> xg_index \<Rightarrow> player_row \<Rightarrow> xg_data option" where
  "enrich u idx row =
    (let pname = safe_str (player_name row);
         fname = safe_str (full_name row);
         team_name = safe_str (Some (p_team row))
     in case xg_by_name idx (pname, team_name) of
          Some hit \<Rightarrow> Some hit
        | None \<Rightarrow>
     (case (if fname \<noteq> [] then xg_by_name idx (fname, team_name) else None) of
          Some hit \<Rightarrow> Some hit
        | None \<Rightarrow>
     (let pname_norm = u_lower u (strip_accents u pname)
      in case xg_by_last idx (pname_norm, team_name) of
          Some hit \<Rightarrow> Some hit
        | None \<Rightarrow>
     (case (if CHR ''.'' \<in> set pname
            then first_hit (\<lambda>part. xg_by_last idx (part, team_name))
                   (map (\<lambda>p. u_lower u (strip_accents u p))
                      (filter (\<lambda>p. length p > 2) (split_on (\<lambda>c. c = CHR ''.'') pname)))
            else None) of
          Some hit \<Rightarrow> Some hit
        | None \<Rightarrow>
     (let candidates = (case xg_by_team idx team_name of None \<Rightarrow> [] | Some l \<Rightarrow> l);
          clean = py_rstrip CHR ''.'' pname_norm
      in map_option snd (find (\<lambda>(xg_name_norm, data). py_in clean xg_name_norm) candidates))))))"

subsection \<open>The five strategies, as the specification words them\<close>

definition strategy_short_name :: "unicodedata \<Rightarrow> xg_index \<Rightarrow> string \<Rightarrow> string \<Rightarrow> string \<Rightarrow> xg_data option" where
  "strategy_short_name u idx short full team_name = xg_by_name idx (short, team_name)"

definition strategy_full_name :: "unicodedata \<Rightarrow> xg_index \<Rightarrow> string \<Rightarrow> string \<Rightarrow> string \<Rightarrow> xg_data option" where
  "strategy_full_name u idx short full team_name =
     (if full = [] then None else xg_by_name idx (full, team_name))"

definition strategy_last_name :: "unicodedata \<Rightarrow> xg_index \<Rightarrow> string \<Rightarrow> string \<Rightarrow> string \<Rightarrow> xg_data option" where
  "strategy_last_name u idx short full team_name =
     xg_by_last idx (u_lower u (strip_accents u short), team_name)"

definition strategy_dot_tokens :: "unicodedata \<Rightarrow> xg_index \<Rightarrow> string \<Rightarrow> string \<Rightarrow> string \<Rightarrow> xg_data option" where
  "strategy_dot_tokens u idx short full team_name =
     (if CHR ''.'' \<notin> set short then None
      else first_hit (\<lambda>token. xg_by_last idx (u_lower u (strip_accents u token), team_name))
             (filter (\<lambda>token. 2 < length token) (split_on (\<lambda>c. c = CHR ''.'') short)))"

definition strategy_substring :: "unicodedata \<Rightarrow> xg_index \<Rightarrow> string \<Rightarrow> string \<Rightarrow> string \<Rightarrow> xg_data option" where
  "strategy_substring u idx short full team_name =
     (case xg_by_team idx team_name of
        None \<Rightarrow> None
      | Some candidates \<Rightarrow>
          first_hit (\<lambda>(cand_name, data).
              if py_in (py_rstrip CHR ''.'' (u_lower u (strip_accents u short))) cand_name
              then Some data else None)
            candidates)"

definition strategies ::
  "(unicodedata \<Rightarrow> xg_index \<Rightarrow> string \<Rightarrow> string \<Rightarrow> string \<Rightarrow> xg_data option) list" where
  "strategies = [strategy_short_name, strategy_full_name, strategy_last_name,
                 strategy_dot_tokens, strategy_substring]"

definition enrich_by_strategies ::
  "unicodedata \<Rightarrow> xg_index \<Rightarrow> string \<Rightarrow> string \<Rightarrow> string \<Rightarrow> xg_data option" where
  "enrich_by_strategies u idx short full team_name =
     first_hit (\<lambda>strategy. strategy u idx short full team_name) strategies"

subsection \<open>What the lookup indexes hold\<close>

text \<open>Every entry of the three indexes under a team comes from a record of the given
  set that lists that team.\<close>

definition index_sound :: "unicodedata \<Rightarrow> xg_player_row set \<Rightarrow> xg_index \<Rightarrow> bool" where
  "index_sound u S idx \<longleftrightarrow>
     (\<forall>n t d. xg_by_name idx (n, t) = Some d \<longrightarrow>
        (\<exists>xr \<in> S. t \<in> set (teams_of_player u xr) \<and> d = xg_data_of xr))
     \<and> (\<forall>l t d. xg_by_last idx (l, t) = Some d \<longrightarrow>
        (\<exists>xr \<in> S. t \<in> set (teams_of_player u xr) \<and> d = xg_data_of xr))
     \<and> (\<forall>t ls n d. xg_by_team idx t = Some ls \<and> (n, d) \<in> set ls \<longrightarrow>
        (\<exists>xr \<in> S. t \<in> set (teams_of_player u xr) \<and> d = xg_data_of xr))"

text \<open>The record is findable under the team in all three indexes.\<close>

definition indexed_under :: "unicodedata \<Rightarrow> xg_index \<Rightarrow> xg_player_row \<Rightarrow> string \<Rightarrow> bool" where
  "indexed_under u idx xr t \<longleftrightarrow>
     xg_by_name idx (safe_str (xp_player_name xr), t) \<noteq> None
     \<and> xg_by_last idx (last_of u xr, t) \<noteq> None
     \<and> (\<exists>ls. xg_by_team idx t = Some ls \<and> (name_norm_of u xr, xg_data_of xr) \<in> set ls)"

section \<open>Player leaderboards\<close>

text \<open>
  \<open>DataFrame.sort_values(col, ascending=False).head(n)\<close> is modelled by the stable sort
  on the negated column followed by \<open>take n\<close>; pandas orders rows with equal keys in
  an unspecified way, and no property below depends on that order.
\<close>

definition per90 :: "int \<Rightarrow> int \<Rightarrow> py_error + rat" where
  "per90 stat mins =
     (if mins < 90 then Inr 0
      else bind_err (py_truediv (of_int stat) (of_int mins))
             (\<lambda>q. Inr (safe_float (Some (q * 90)) 2)))"

record goal_scorer_row =
  gs_rank :: nat
  gs_player_name :: string
  gs_team :: string
  gs_position :: string
  gs_goals :: int
  gs_assists :: int
  gs_minutes :: int
  goals_per_90 :: rat
  gs_price :: rat
  gs_xg :: "rat option"
  gs_shots :: "int option"

record assist_leader_row =
  al_rank :: nat
  al_player_name :: string
  al_team :: string
  al_position :: string
  al_assists :: int
  al_goals :: int
  al_minutes :: int
  assists_per_90 :: rat
  al_xa :: "rat option"
  al_key_passes :: "int option"
  al_price :: rat

record iron_man_row =
  im_player_name :: string
  im_team :: string
  im_position :: string
  im_minutes :: int
  games_equivalent :: rat
  im_goals :: int
  im_assists :: int

record position_row =
  pr_position :: string
  pr_total_goals :: int
  pr_total_assists :: int
  player_count :: int
  pr_avg_goals :: rat

record value_row =
  vr_rank :: nat
  vr_player_name :: string
  vr_team :: string
  vr_position :: string
  vr_price :: rat
  vr_goals :: int
  vr_assists :: int
  ga_per_million :: rat
  vr_minutes :: int

record card_row =
  cr_player_name :: string
  cr_team :: string
  cr_position :: string
  yellows :: int
  reds :: int
  cr_total_cards :: int
  cr_minutes :: int

record leaderboards =
  goal_scorers :: "goal_scorer_row list"
  assist_leaders :: "assist_leader_row list"
  iron_men :: "iron_man_row list"
  goals_by_position :: "position_row list"
  best_value :: "value_row list"
  most_cards :: "card_row list"

definition goal_scorer :: "unicodedata \<Rightarrow> xg_index \<Rightarrow> nat \<times> player_row \<Rightarrow> py_error + goal_scorer_row" where
  "goal_scorer u idx = (\<lambda>(i, row).
     let xg_data = enrich u idx row;
         mins = safe_int (Some (minutes row));
         goals_v = safe_int (Some (goals row))
     in bind_err (per90 goals_v mins)
          (\<lambda>g90. Inr \<lparr>gs_rank = i + 1, gs_player_name = safe_str (player_name row),
             gs_team = safe_str (Some (p_team row)),
             gs_position = safe_str (Some (p_position row)),
             gs_goals = goals_v, gs_assists = safe_int (Some (assists row)),
             gs_minutes = mins, goals_per_90 = g90,
             gs_price = safe_float (Some (price row)) 1,
             gs_xg = map_option xg xg_data, gs_shots = map_option shots xg_data\<rparr>))"

definition assist_leader :: "unicodedata \<Rightarrow> xg_index \<Rightarrow> nat \<times> player_row \<Rightarrow> py_error + assist_leader_row" where
  "assist_leader u idx = (\<lambda>(i, row).
     let xg_data = enrich u idx row;
         mins = safe_int (Some (minutes row));
         assists_v = safe_int (Some (assists row))
     in bind_err (per90 assists_v mins)
          (\<lambda>a90. Inr \<lparr>al_rank = i + 1, al_player_name = safe_str (player_name row),
             al_team = safe_str (Some (p_team row)),
             al_position = safe_str (Some (p_position row)),
             al_assists = assists_v, al_goals = safe_int (Some (goals row)),
             al_minutes = mins, assists_per_90 = a90,
             al_xa = map_option xa xg_data, al_key_passes = map_option key_passes xg_data,
             al_price = safe_float (Some (price row)) 1\<rparr>))"

text \<open>\<open>team_players.sort_values('minutes', ascending=False).iloc[0]\<close>\<close>

definition iron_man :: "player_row list \<Rightarrow> string \<Rightarrow> py_error + iron_man_row" where
  "iron_man fpl team_name =
     (case sort_key (\<lambda>p. - minutes p) (filter (\<lambda>p. p_team p = team_name) fpl) of
        [] \<Rightarrow> Inl IndexError
      | top_player # _ \<Rightarrow>
          (let mins = safe_int (Some (minutes top_player))
           in Inr \<lparr>im_player_name = safe_str (player_name top_player), im_team = team_name,
                 im_position = safe_str (Some (p_position top_player)), im_minutes = mins,
                 games_equivalent = safe_float (Some (of_int mins / 90)) 1,
                 im_goals = safe_int (Some (goals top_player)),
                 im_assists = safe_int (Some (assists top_player))\<rparr>))"

definition goals_by_pos :: "player_row list \<Rightarrow> string \<Rightarrow> py_error + position_row" where
  "goals_by_pos fpl pos =
     (let pos_df = filter (\<lambda>p. p_position p = pos) fpl;
          total_g = safe_int (Some (sum_list (map goals pos_df)));
          total_a = safe_int (Some (sum_list (map assists pos_df)));
          cnt = len (filter (\<lambda>p. minutes p > 0) pos_df)
      in bind_err (if cnt > 0 then py_truediv (of_int total_g) (of_int cnt) else Inr 0)
           (\<lambda>avg. Inr \<lparr>pr_position = pos, pr_total_goals = total_g,
                        pr_total_assists = total_a, player_count = cnt,
                        pr_avg_goals = safe_float (Some avg) 2\<rparr>))"

text \<open>Series division in pandas does not raise; the rows left by the filter have a
  positive price.\<close>

definition ga_per_million_of :: "player_row \<Rightarrow> rat" where
  "ga_per_million_of p = py_round (of_int (goals p + assists p) / price p) 2"

definition value_player :: "nat \<times> player_row \<Rightarrow> value_row" where
  "value_player = (\<lambda>(i, row).
     \<lparr>vr_rank = i + 1, vr_player_name = safe_str (player_name row),
      vr_team = safe_str (Some (p_team row)), vr_position = safe_str (Some (p_position row)),
      vr_price = safe_float (Some (price row)) 1, vr_goals = safe_int (Some (goals row)),
      vr_assists = safe_int (Some (assists row)),
      ga_per_million = safe_float (Some (ga_per_million_of row)) 2,
      vr_minutes = safe_int (Some (minutes row))\<rparr>)"

definition card_player :: "player_row \<Rightarrow> card_row" where
  "card_player row =
     \<lparr>cr_player_name = safe_str (player_name row), cr_team = safe_str (Some (p_team row)),
      cr_position = safe_str (Some (p_position row)),
      yellows = safe_int (Some (yellow_cards row)), reds = safe_int (Some (red_cards row)),
      cr_total_cards = safe_int (Some (yellow_cards row + red_cards row)),
      cr_minutes = safe_int (Some (minutes row))\<rparr>"

definition build_leaderboards ::
  "unicodedata \<Rightarrow> xg_index \<Rightarrow> player_row list \<Rightarrow> py_error + leaderboards" where
  "build_leaderboards u idx fpl =
    (let scorers_df = take 20 (sort_key (\<lambda>p. - goals p) (filter (\<lambda>p. goals p > 0) fpl));
         assists_df = take 15 (sort_key (\<lambda>p. - assists p) (filter (\<lambda>p. assists p > 0) fpl))
     in bind_err (traverse (goal_scorer u idx) (enumerate 0 scorers_df)) (\<lambda>goal_scorers_v.
        bind_err (traverse (assist_leader u idx) (enumerate 0 assists_df)) (\<lambda>assist_leaders_v.
        bind_err (traverse (iron_man fpl)
                    (sorted_list_of_set (set (map p_team fpl)))) (\<lambda>iron_men_v.
        bind_err (traverse (goals_by_pos fpl) [''FWD'', ''MID'', ''DEF'', ''GK'']) (\<lambda>goals_by_pos_v.
        let active = filter (\<lambda>p. minutes p \<ge> 450 \<and> price p > 0) fpl;
            best_value_df = take 15 (sort_key (\<lambda>p. - ga_per_million_of p) active);
            card_df = take 10 (sort_key (\<lambda>p. - (yellow_cards p + red_cards p))
                                 (filter (\<lambda>p. yellow_cards p + red_cards p > 0) fpl))
        in Inr \<lparr>goal_scorers = goal_scorers_v, assist_leaders = assist_leaders_v,
                iron_men = sort_key (\<lambda>x. - im_minutes x) iron_men_v,
                goals_by_position = goals_by_pos_v,
                best_value = map value_player (enumerate 0 best_value_df),
                most_cards = map card_player card_df\<rparr>)))))"

section \<open>Money versus points\<close>

record money_row =
  mr_team :: string
  squad_value :: rat
  mr_points :: int
  mr_played :: int
  points_per_match :: rat
  expected_points :: rat
  over_under :: rat

record regression =
  slope :: rat
  intercept :: rat
  r_squared :: rat

record money_section =
  mv_teams :: "money_row list"
  mv_regression :: regression

text \<open>\<open>players_df.groupby('team')['price'].sum().reset_index()\<close>: one row per team, in
  the sorted order of the group keys.\<close>

definition squad_values :: "player_row list \<Rightarrow> (string \<times> rat) list" where
  "squad_values players_df =
     map (\<lambda>t. (t, sum_list (map price (filter (\<lambda>p. p_team p = t) players_df))))
       (sorted_list_of_set (set (map p_team players_df)))"

text \<open>The body of the loop over \<open>squad_values.iterrows()\<close>: \<open>None\<close> is
  \<open>continue\<close>. The row lacks \<open>expected_points\<close> and \<open>over_under\<close> until the line is
  fitted.\<close>

definition money_step ::
  "team_row list \<Rightarrow> string \<times> rat \<Rightarrow> py_error + (string \<times> rat \<times> int \<times> int \<times> rat) option" where
  "money_step table_rows = (\<lambda>(team_name, sv).
     let val = safe_float (Some sv) 1
     in case find (\<lambda>t. team t = team_name) table_rows of
          None \<Rightarrow> Inr None
        | Some team_row \<Rightarrow>
            (let pts = points team_row; played_v = played team_row
             in bind_err (if played_v > 0 then py_truediv (of_int pts) (of_int played_v)
                          else Inr 0)
                  (\<lambda>ppm. Inr (Some (team_name, val, pts, played_v, safe_float (Some ppm) 2)))))"

text \<open>The unrounded line fitted through (squad value, points): mean of the values, mean
  of the points, \<open>cov\<close>, \<open>var\<close>, \<open>slope\<close> and \<open>intercept\<close>.\<close>

record fit =
  mean_v :: rat
  mean_p :: rat
  cov :: rat
  var :: rat
  fit_slope :: rat
  fit_intercept :: rat

definition fit_line :: "rat list \<Rightarrow> int list \<Rightarrow> py_error + fit" where
  "fit_line vals pts =
     (let n = len vals
      in bind_err (py_truediv (sum_list vals) (of_int n)) (\<lambda>mean_v_v.
         bind_err (py_truediv (of_int (sum_list pts)) (of_int n)) (\<lambda>mean_p_v.
         let cov_v = sum_list (map (\<lambda>(v, p). (v - mean_v_v) * (of_int p - mean_p_v))
                                 (zip vals pts));
             var_v = sum_list (map (\<lambda>v. (v - mean_v_v) ^ 2) vals)
         in bind_err (if var_v > 0 then py_truediv cov_v var_v else Inr 0) (\<lambda>slope_v.
            Inr \<lparr>mean_v = mean_v_v, mean_p = mean_p_v, cov = cov_v, var = var_v,
                 fit_slope = slope_v, fit_intercept = mean_p_v - slope_v * mean_v_v\<rparr>))))"

text \<open>The \<open>regression\<close> dict of the output.\<close>

definition regression_of :: "rat list \<Rightarrow> int list \<Rightarrow> py_error + regression" where
  "regression_of vals pts =
     bind_err (fit_line vals pts) (\<lambda>f.
       let var_p = sum_list (map (\<lambda>p. (of_int p - mean_p f) ^ 2) pts)
       in bind_err (if var f > 0 \<and> var_p > 0
                    then py_truediv ((cov f) ^ 2) (var f * var_p) else Inr 0)
            (\<lambda>r2. Inr \<lparr>slope = safe_float (Some (fit_slope f)) 4,
                         intercept = safe_float (Some (fit_intercept f)) 2,
                         r_squared = safe_float (Some r2) 3\<rparr>))"

definition money_final :: "fit \<Rightarrow> string \<times> rat \<times> int \<times> int \<times> rat \<Rightarrow> money_row" where
  "money_final f = (\<lambda>(team_name, val, pts, played_v, ppm).
     let expected = fit_slope f * val + fit_intercept f
     in \<lparr>mr_team = team_name, squad_value = val, mr_points = pts, mr_played = played_v,
         points_per_match = ppm, expected_points = safe_float (Some expected) 2,
         over_under = safe_float (Some (of_int pts - expected)) 2\<rparr>)"

definition money_vs_points_of ::
  "team_row list \<Rightarrow> player_row list \<Rightarrow> py_error + money_section option" where
  "money_vs_points_of table_rows players_df =
     bind_err (traverse (money_step table_rows) (squad_values players_df)) (\<lambda>steps.
       let money_rows = List.map_filter id steps
       in if money_rows \<noteq> []
          then (let vals = map (\<lambda>(t, v, p, pl, ppm). v) money_rows;
                    pts = map (\<lambda>(t, v, p, pl, ppm). p) money_rows
                in bind_err (fit_line vals pts) (\<lambda>f.
                   bind_err (regression_of vals pts) (\<lambda>reg.
                     Inr (Some \<lparr>mv_teams = sort_key (\<lambda>x. - over_under x)
                                                (map (money_final f) money_rows),
                                mv_regression = reg\<rparr>))))
          else Inr None)"

subsection \<open>Least squares, as the specification words it\<close>







section \<open>Document assembly\<close>

text \<open>
  What \<open>main\<close> finds at the path of a CSV file: no file, a file in which
  \<open>pd.read_csv\<close> finds no columns to parse (it raises \<open>EmptyDataError\<close>), or a table
  with its rows (possibly none). players.csv, as 03\_fetch\_fpl.py writes it, always has
  the \<open>price\<close> column, so \<open>'price' in players_df.columns\<close> holds.
\<close>

datatype 'a csv = Missing | NoColumns | Rows "'a list"

definition read_csv :: "'a csv \<Rightarrow> py_error + 'a list" where
  "read_csv f = (case f of Missing \<Rightarrow> Inl FileNotFoundError
                          | NoColumns \<Rightarrow> Inl EmptyDataError
                          | Rows rows \<Rightarrow> Inr rows)"

text \<open>\<open>try: ... pd.read_csv(...) except FileNotFoundError: ...\<close>\<close>

definition try_read_csv :: "'a csv \<Rightarrow> py_error + 'a list option" where
  "try_read_csv f = (case read_csv f of
                       Inl FileNotFoundError \<Rightarrow> Inr None
                     | Inl e \<Rightarrow> Inl e
                     | Inr rows \<Rightarrow> Inr (Some rows))"

record inputs =
  matches_csv :: "match_row csv"
  players_csv :: "player_row csv"
  xg_teams_csv :: "xg_team_row csv"
  xg_players_csv :: "xg_player_row csv"

definition CURRENT_SEASON :: string where
  "CURRENT_SEASON = ''2025-26''"

definition FULL_SEASON_MATCHES :: int where
  "FULL_SEASON_MATCHES = 380"

record season_status =
  matches_played :: int
  matches_total :: int
  matchdays_played :: int
  matchdays_total :: int
  is_complete :: bool
  last_match_date :: string

text \<open>The output document, with the sections modelled here. (The match aggregators --
  monthly trends, home/away split, referee statistics, scoreline frequency, season
  comparison -- and the two short player lists \<open>top_scorers\<close> and \<open>player_value\<close> are
  not part of this model.) No modelled number is NaN or infinite, so
  \<open>sanitize_for_json\<close> leaves the document as it is.\<close>

record document =
  generated_at :: string
  doc_season :: string
  source :: string
  total_matches :: int
  doc_season_status :: season_status
  league_table_section :: "team_row list"
  cumulative_points_section :: "(string \<times> matchday_row list) list"
  xg_table :: "xg_table_row list option"
  xg_vs_actual :: "xg_scatter_row list option"
  shot_quality :: "shot_quality_row list option"
  player_leaderboards :: "leaderboards option"
  money_vs_points :: "money_section option"

text \<open>\<open>games_per_team.max()\<close> is NaN on an empty season, and \<open>safe_int\<close> makes it 0.\<close>

definition season_status_of :: "match_row list \<Rightarrow> season_status" where
  "season_status_of current =
     (let matches_played_v = len current;
          games_per_team = map (\<lambda>t. len (filter (\<lambda>m. home_team m = t) current)
                                      + len (filter (\<lambda>m. away_team m = t) current))
                             (teams_of current);
          matchdays_played_v = safe_int (if games_per_team = [] then None
                                         else Some (Max (set games_per_team)));
          last_date = (if len current > 0 then Max (set (map date current)) else [])
      in \<lparr>matches_played = safe_int (Some matches_played_v),
          matches_total = FULL_SEASON_MATCHES,
          matchdays_played = matchdays_played_v,
          matchdays_total = 38,
          is_complete = (matches_played_v \<ge> FULL_SEASON_MATCHES),
          last_match_date = last_date\<rparr>)"

text \<open>\<open>has_xg\<close> is set only after both xG files have been read.\<close>

definition load_xg ::
  "inputs \<Rightarrow> py_error + (xg_team_row list \<times> xg_player_row list) option" where
  "load_xg inp =
     bind_err (try_read_csv (xg_teams_csv inp)) (\<lambda>t.
       case t of
         None \<Rightarrow> Inr None
       | Some xg_teams_df \<Rightarrow>
           bind_err (try_read_csv (xg_players_csv inp)) (\<lambda>p.
             case p of
               None \<Rightarrow> Inr None
             | Some xg_players_df \<Rightarrow> Inr (Some (xg_teams_df, xg_players_df))))"

text \<open>\<open>main\<close>; the clock read by \<open>pd.Timestamp.now()\<close> is the argument \<open>now\<close>.\<close>

definition main :: "unicodedata \<Rightarrow> string \<Rightarrow> inputs \<Rightarrow> py_error + document" where
  "main u now inp =
    (case matches_csv inp of
       Missing \<Rightarrow> Inl (SysExit 1)
     | _ \<Rightarrow>
    bind_err (read_csv (matches_csv inp)) (\<lambda>df.
    bind_err (try_read_csv (players_csv inp)) (\<lambda>players_df.
    bind_err (load_xg inp) (\<lambda>xg_dfs.
    let current = filter (\<lambda>m. season m = CURRENT_SEASON) df
    in bind_err (league_table current) (\<lambda>table_rows.
       bind_err (case xg_dfs of
                   None \<Rightarrow> Inr None
                 | Some (xg_teams_df, xg_players_df) \<Rightarrow>
                     bind_err (xg_analytics table_rows xg_teams_df) (\<lambda>r. Inr (Some r)))
         (\<lambda>xg_sections.
       bind_err (case players_df of
                   None \<Rightarrow> Inr None
                 | Some fpl \<Rightarrow>
                     bind_err (build_leaderboards u
                                 (build_xg_index u (map_option snd xg_dfs)) fpl)
                       (\<lambda>r. Inr (Some r)))
         (\<lambda>player_leaderboards_v.
       bind_err (case players_df of
                   None \<Rightarrow> Inr None
                 | Some fpl \<Rightarrow> money_vs_points_of table_rows fpl)
         (\<lambda>money_vs_points_v.
       Inr \<lparr>generated_at = now,
            doc_season = CURRENT_SEASON,
            source = ''football-data.co.uk'',
            total_matches = safe_int (Some (len current)),
            doc_season_status = season_status_of current,
            league_table_section = table_rows,
            cumulative_points_section = cumulative_points current,
            xg_table = map_option fst xg_sections,
            xg_vs_actual = map_option (\<lambda>r. fst (snd r)) xg_sections,
            shot_quality = map_option (\<lambda>r. snd (snd r)) xg_sections,
            player_leaderboards = player_leaderboards_v,
            money_vs_points = money_vs_points_v\<rparr>))))))))"

section \<open>Example inputs\<close>

definition mk_match ::
  "string \<Rightarrow> string \<Rightarrow> string \<Rightarrow> int \<Rightarrow> int \<Rightarrow> string \<Rightarrow> int \<Rightarrow> int \<Rightarrow> int \<Rightarrow> int \<Rightarrow> match_row" where
  "mk_match d h a hg ag r hs as hst ast =
     \<lparr>season = ''2025-26'', date = d, home_team = h, away_team = a, home_goals = hg,
      away_goals = ag, result = r, home_shots = hs, away_shots = as,
      home_shots_on_target = hst, away_shots_on_target = ast\<rparr>"

definition ex_season :: "match_row list" where
  "ex_season =
     [mk_match ''2025-08-16'' ''Arsenal'' ''Burnley'' 2 0 ''H'' 10 0 4 0,
      mk_match ''2025-08-23'' ''Burnley'' ''Chelsea'' 1 1 ''D'' 0 8 0 0,
      mk_match ''2025-08-30'' ''Chelsea'' ''Arsenal'' 0 1 ''A'' 7 9 0 3]"

definition ex_tied :: "match_row list" where
  "ex_tied = [mk_match ''2025-08-16'' ''Burnley'' ''Arsenal'' 1 1 ''D'' 5 6 2 3]"

text \<open>The Unicode tables restricted to ASCII: nothing decomposes, nothing combines.\<close>

definition ascii_lower :: "char \<Rightarrow> char" where
  "ascii_lower c =
     (if CHR ''A'' \<le> c \<and> c \<le> CHR ''Z'' then char_of (of_char c + (32::nat)) else c)"

definition ascii_tables :: unicodedata where
  "ascii_tables =
     \<lparr>u_nfkd = (\<lambda>s. s), u_combining = (\<lambda>c. False), u_lower = map ascii_lower,
      u_isspace = (\<lambda>c. c \<in> set [CHR '' '', CHR 0x09, CHR 0x0A, CHR 0x0B, CHR 0x0C, CHR 0x0D,
                                  CHR 0x1C, CHR 0x1D, CHR 0x1E, CHR 0x1F])\<rparr>"

definition ex_xg_teams :: "xg_team_row list" where
  "ex_xg_teams =
     [\<lparr>xt_team = ''Arsenal'', xg_for = Some (7 / 2), xg_against = Some 1,
       xt_goals_for = Some 3, xt_goals_against = Some 0\<rparr>,
      \<lparr>xt_team = ''Burnley'', xg_for = Some (3 / 2), xg_against = Some 3,
       xt_goals_for = Some 1, xt_goals_against = Some 3\<rparr>,
      \<lparr>xt_team = ''Everton'', xg_for = Some 2, xg_against = Some (5 / 2),
       xt_goals_for = Some 2, xt_goals_against = Some 2\<rparr>]"

definition ex_xg_players :: "xg_player_row list" where
  "ex_xg_players =
     [\<lparr>xp_player_name = Some ''Erling Haaland'', xp_team = Some ''Manchester City'',
       xp_xg = Some (41 / 2), xp_xa = Some (9 / 2), xp_shots = Some 90,
       xp_key_passes = Some 25, xp_npxg = Some 18\<rparr>]"

definition ex_inputs :: inputs where
  "ex_inputs = \<lparr>matches_csv = Rows ex_season, players_csv = Missing,
                 xg_teams_csv = Rows ex_xg_teams, xg_players_csv = Rows ex_xg_players\<rparr>"

definition ex_no_files :: inputs where
  "ex_no_files = \<lparr>matches_csv = Missing, players_csv = Missing,
                   xg_teams_csv = Missing, xg_players_csv = Missing\<rparr>"

definition ex_no_columns :: inputs where
  "ex_no_columns = \<lparr>matches_csv = NoColumns, players_csv = Missing,
                     xg_teams_csv = Missing, xg_players_csv = Missing\<rparr>"

definition ex_no_rows :: inputs where
  "ex_no_rows = \<lparr>matches_csv = Rows [], players_csv = Missing,
                  xg_teams_csv = Missing, xg_players_csv = Missing\<rparr>"

definition ex_no_players :: inputs where
  "ex_no_players = \<lparr>matches_csv = Rows ex_season, players_csv = Rows [],
                     xg_teams_csv = Missing, xg_players_csv = Missing\<rparr>"

definition ex_players_missing :: inputs where
  "ex_players_missing = \<lparr>matches_csv = Rows ex_season, players_csv = Missing,
                          xg_teams_csv = Missing, xg_players_csv = Missing\<rparr>"





definition ex_haaland :: player_row where
  "ex_haaland =
     \<lparr>player_name = Some ''Haaland'', full_name = None, p_team = ''Manchester City'',
      p_position = ''FWD'', goals = 20, assists = 5, minutes = 2000, yellow_cards = 1,
      red_cards = 0, price = 14\<rparr>"

definition ex_sterling :: player_row where
  "ex_sterling =
     \<lparr>player_name = Some ''Sterling'', full_name = Some ''Raheem Sterling'', p_team = ''Arsenal'',
      p_position = ''MID'', goals = 2, assists = 3, minutes = 900, yellow_cards = 0,
      red_cards = 0, price = 7\<rparr>"

definition ex_unknown :: player_row where
  "ex_unknown =
     \<lparr>player_name = Some ''Haaland'', full_name = None, p_team = ''Everton'',
      p_position = ''FWD'', goals = 0, assists = 0, minutes = 0, yellow_cards = 0,
      red_cards = 0, price = 5\<rparr>"

definition ex_xg_sterling :: xg_player_row where
  "ex_xg_sterling =
     \<lparr>xp_player_name = Some ''Raheem Sterling'', xp_team = Some ''Chelsea, Arsenal'',
      xp_xg = Some (5 / 2), xp_xa = Some 3, xp_shots = Some 20, xp_key_passes = Some 15,
      xp_npxg = Some (5 / 2)\<rparr>"

definition ex_index :: xg_index where
  "ex_index = build_xg_index ascii_tables (Some (ex_xg_players @ [ex_xg_sterling]))"

section \<open>Errors and list comprehensions\<close>

lemma bind_err_Inr [simp]: "bind_err (Inr v) f = f v"
  by (simp add: bind_err_def)

lemma bind_err_Inl [simp]: "bind_err (Inl e) f = Inl e"
  by (simp add: bind_err_def)

lemma traverse_list_all2:
  "traverse f xs = Inr ys \<longleftrightarrow> list_all2 (\<lambda>x y. f x = Inr y) xs ys"
proof (induction xs arbitrary: ys)
  case Nil
  show ?case by auto
next
  case (Cons x xs)
  show ?case
  proof (cases "f x")
    case (Inl e)
    then show ?thesis by (auto simp: list_all2_Cons1)
  next
    case (Inr y)
    show ?thesis
    proof (cases "traverse f xs")
      case (Inl e)
      with Inr Cons.IH show ?thesis by (auto simp: list_all2_Cons1)
    next
      case r: (Inr zs)
      with Inr Cons.IH show ?thesis by (auto simp: list_all2_Cons1)
    qed
  qed
qed

lemma traverse_total:
  "(\<And>x. x \<in> set xs \<Longrightarrow> \<exists>y. f x = Inr y) \<Longrightarrow> \<exists>ys. traverse f xs = Inr ys"
proof (induction xs)
  case Nil
  show ?case by simp
next
  case (Cons x xs)
  then obtain y ys where "f x = Inr y" "traverse f xs = Inr ys"
    by (metis list.set_intros)
  then show ?case by simp
qed

section \<open>The league table\<close>

lemma build_team_stats_total: "\<exists>r. build_team_stats cur t = Inr r"
  by (simp add: build_team_stats_def Let_def py_truediv_def)

lemma build_team_stats_team: "build_team_stats cur t = Inr r \<Longrightarrow> team r = t"
  by (auto simp: build_team_stats_def Let_def py_truediv_def split: if_splits)

lemma table_rows_total: "\<exists>rows. traverse (build_team_stats cur) (teams_of cur) = Inr rows"
  by (rule traverse_total) (rule build_team_stats_total)

lemma table_rows_teams:
  "traverse (build_team_stats cur) ts = Inr rows \<Longrightarrow> map team rows = ts"
  unfolding traverse_list_all2
  by (induction ts rows rule: list_all2_induct) (simp_all add: build_team_stats_team)

lemma teams_of_strict: "sorted_wrt (<) (teams_of cur)"
  by (simp add: teams_of_def)

lemma table_key_position [simp]: "table_key (row\<lparr>position := p\<rparr>) = table_key row"
  by (simp add: table_key_def)

lemma length_assign_positions [simp]: "length (assign_positions rows) = length rows"
  by (simp add: assign_positions_def)

lemma nth_assign_positions:
  "i < length rows \<Longrightarrow> assign_positions rows ! i = (rows ! i)\<lparr>position := Some (i + 1)\<rparr>"
  by (simp add: assign_positions_def nth_enumerate_eq)

lemma map_table_key_assign_positions [simp]:
  "map table_key (assign_positions rows) = map table_key rows"
  by (rule nth_equalityI) (simp_all add: nth_assign_positions)

lemma table_key_le:
  "table_key a \<le> table_key b \<longleftrightarrow>
     points a > points b
     \<or> (points a = points b \<and> goal_difference a > goal_difference b)
     \<or> (points a = points b \<and> goal_difference a = goal_difference b
         \<and> goals_for a \<ge> goals_for b)"
  by (auto simp: table_key_def)

text \<open>
  C1. The league table of a season always builds, and for any two rows, the first
  listed before the second, either the first has more points, or the points are equal
  and the first has the larger goal difference, or both are equal and the first has at
  least as many goals for. The position of a row is its 1-based index after the sort.
\<close>

theorem league_table_ordering:
  "\<exists>tbl. league_table current = Inr tbl
     \<and> (\<forall>i j. i < j \<and> j < length tbl \<longrightarrow>
           points (tbl ! i) > points (tbl ! j)
           \<or> (points (tbl ! i) = points (tbl ! j)
               \<and> goal_difference (tbl ! i) > goal_difference (tbl ! j))
           \<or> (points (tbl ! i) = points (tbl ! j)
               \<and> goal_difference (tbl ! i) = goal_difference (tbl ! j)
               \<and> goals_for (tbl ! i) \<ge> goals_for (tbl ! j)))
     \<and> (\<forall>i < length tbl. position (tbl ! i) = Some (i + 1))"
proof -
  obtain rows where rows: "traverse (build_team_stats current) (teams_of current) = Inr rows"
    using table_rows_total by blast
  define tbl where "tbl = assign_positions (sort_key table_key rows)"
  have lt: "league_table current = Inr tbl"
    by (simp add: league_table_def rows tbl_def)
  have srt: "sorted (map table_key tbl)"
    by (simp add: tbl_def)
  have ord: "table_key (tbl ! i) \<le> table_key (tbl ! j)" if "i < j" "j < length tbl" for i j
    using sorted_nth_mono [OF srt, of i j] that by simp
  have pos: "position (tbl ! i) = Some (i + 1)" if "i < length tbl" for i
    using that by (simp add: tbl_def nth_assign_positions)
  show ?thesis
    using lt ord pos unfolding table_key_le by blast
qed

theorem league_table_ordering_witness:
  "\<exists>tbl. league_table ex_season = Inr tbl \<and> (0::nat) < 1 \<and> 1 < length tbl
     \<and> (points (tbl ! 0) > points (tbl ! 1)
         \<or> (points (tbl ! 0) = points (tbl ! 1)
             \<and> goal_difference (tbl ! 0) > goal_difference (tbl ! 1))
         \<or> (points (tbl ! 0) = points (tbl ! 1)
             \<and> goal_difference (tbl ! 0) = goal_difference (tbl ! 1)
             \<and> goals_for (tbl ! 0) \<ge> goals_for (tbl ! 1)))
     \<and> position (tbl ! 1) = Some 2"
proof -
  have ev: "map_sum id length (league_table ex_season) = Inr 3"
    by code_simp
  obtain tbl where t: "league_table ex_season = Inr tbl"
    and ord: "\<forall>i j. i < j \<and> j < length tbl \<longrightarrow>
           points (tbl ! i) > points (tbl ! j)
           \<or> (points (tbl ! i) = points (tbl ! j)
               \<and> goal_difference (tbl ! i) > goal_difference (tbl ! j))
           \<or> (points (tbl ! i) = points (tbl ! j)
               \<and> goal_difference (tbl ! i) = goal_difference (tbl ! j)
               \<and> goals_for (tbl ! i) \<ge> goals_for (tbl ! j))"
    and pos: "\<forall>i < length tbl. position (tbl ! i) = Some (i + 1)"
    using league_table_ordering [of ex_season] by blast
  from ev t have len: "length tbl = 3" by simp
  from pos len have p: "position (tbl ! 1) = Some 2" by simp
  from ord len have "points (tbl ! 0) > points (tbl ! 1)
         \<or> (points (tbl ! 0) = points (tbl ! 1)
             \<and> goal_difference (tbl ! 0) > goal_difference (tbl ! 1))
         \<or> (points (tbl ! 0) = points (tbl ! 1)
             \<and> goal_difference (tbl ! 0) = goal_difference (tbl ! 1)
             \<and> goals_for (tbl ! 0) \<ge> goals_for (tbl ! 1))"
    by simp
  with t len p show ?thesis by simp
qed

lemma sorted_wrt_by_key:
  "(\<And>k. sorted_wrt Q (filter (\<lambda>x. f x = k) zs)) \<Longrightarrow>
     sorted_wrt (\<lambda>a b. f a = f b \<longrightarrow> Q a b) zs"
proof (induction zs)
  case Nil
  show ?case by simp
next
  case (Cons a zs)
  have tl: "sorted_wrt Q (filter (\<lambda>x. f x = k) zs)" for k
    using Cons.prems [of k] by (cases "f a = k") simp_all
  have hd: "Q a b" if "b \<in> set zs" "f a = f b" for b
    using Cons.prems [of "f a"] that by simp
  show ?case
    using Cons.IH [OF tl] hd by simp
qed

text \<open>
  C9. Two teams tied on points, goal difference and goals for appear in the league
  table in the order of their names: the team list is enumerated sorted and the ranking
  sort is stable.
\<close>

theorem league_table_ties_alphabetical:
  "\<exists>tbl. league_table current = Inr tbl
     \<and> (\<forall>i j. i < j \<and> j < length tbl
            \<and> points (tbl ! i) = points (tbl ! j)
            \<and> goal_difference (tbl ! i) = goal_difference (tbl ! j)
            \<and> goals_for (tbl ! i) = goals_for (tbl ! j)
          \<longrightarrow> team (tbl ! i) < team (tbl ! j))"
proof -
  obtain rows where rows: "traverse (build_team_stats current) (teams_of current) = Inr rows"
    using table_rows_total by blast
  define srt where "srt = sort_key table_key rows"
  define tbl where "tbl = assign_positions srt"
  have lt: "league_table current = Inr tbl"
    by (simp add: league_table_def rows tbl_def srt_def)
  have "sorted_wrt (<) (map team rows)"
    using table_rows_teams [OF rows] teams_of_strict by simp
  then have in_order: "sorted_wrt (\<lambda>a b. team a < team b) rows"
    by (simp add: sorted_wrt_map)
  have "sorted_wrt (\<lambda>a b. team a < team b) (filter (\<lambda>x. table_key x = k) srt)" for k
    unfolding srt_def sort_key_stable using in_order by (rule sorted_wrt_filter)
  then have by_key: "sorted_wrt (\<lambda>a b. table_key a = table_key b \<longrightarrow> team a < team b) srt"
    by (rule sorted_wrt_by_key)
  have "team (tbl ! i) < team (tbl ! j)"
    if "i < j" "j < length tbl" "table_key (tbl ! i) = table_key (tbl ! j)" for i j
  proof -
    have len: "j < length srt" "i < length srt"
      using that by (simp_all add: tbl_def)
    have "table_key (srt ! i) = table_key (srt ! j)"
      using that(3) len by (simp add: tbl_def nth_assign_positions)
    then have "team (srt ! i) < team (srt ! j)"
      using sorted_wrt_nth_less [OF by_key \<open>i < j\<close> len(1)] by simp
    then show ?thesis
      using len by (simp add: tbl_def nth_assign_positions)
  qed
  then show ?thesis
    using lt by (auto simp: table_key_def)
qed

theorem league_table_ties_alphabetical_witness:
  "\<exists>tbl. league_table ex_tied = Inr tbl \<and> (0::nat) < 1 \<and> 1 < length tbl
     \<and> points (tbl ! 0) = points (tbl ! 1)
     \<and> goal_difference (tbl ! 0) = goal_difference (tbl ! 1)
     \<and> goals_for (tbl ! 0) = goals_for (tbl ! 1)
     \<and> team (tbl ! 0) < team (tbl ! 1)"
proof -
  have ev: "map_sum id (map (\<lambda>r. (points r, goal_difference r, goals_for r)))
              (league_table ex_tied) = Inr [(1, 0, 1), (1, 0, 1)]"
    by code_simp
  obtain tbl where t: "league_table ex_tied = Inr tbl"
    and ord: "\<forall>i j. i < j \<and> j < length tbl
            \<and> points (tbl ! i) = points (tbl ! j)
            \<and> goal_difference (tbl ! i) = goal_difference (tbl ! j)
            \<and> goals_for (tbl ! i) = goals_for (tbl ! j)
          \<longrightarrow> team (tbl ! i) < team (tbl ! j)"
    using league_table_ties_alphabetical [of ex_tied] by blast
  from ev t obtain a b where ab: "tbl = [a, b]"
    and "points a = 1" "goal_difference a = 0" "goals_for a = 1"
    and "points b = 1" "goal_difference b = 0" "goals_for b = 1"
    by auto
  then have tie: "(0::nat) < 1 \<and> 1 < length tbl
     \<and> points (tbl ! 0) = points (tbl ! 1)
     \<and> goal_difference (tbl ! 0) = goal_difference (tbl ! 1)
     \<and> goals_for (tbl ! 0) = goals_for (tbl ! 1)"
    by simp
  with ord have "team (tbl ! 0) < team (tbl ! 1)" by blast
  with t tie show ?thesis by blast
qed

section \<open>Cumulative points\<close>

lemma cumsum_length [simp]: "length (cumsum acc xs) = length xs"
  by (induction acc xs rule: cumsum.induct) simp_all

lemma cumsum_ge:
  "\<forall>x \<in> set xs. \<exists>v\<ge>0. x = Some v \<Longrightarrow> y \<in> set (cumsum acc xs) \<Longrightarrow> acc \<le> safe_int y"
proof (induction acc xs rule: cumsum.induct)
  case (1 acc)
  then show ?case by simp
next
  case (2 acc xs)
  then show ?case by simp
next
  case (3 acc v xs)
  from "3.prems"(1) have v: "0 \<le> v" and rest: "\<forall>x \<in> set xs. \<exists>v\<ge>0. x = Some v"
    by simp_all
  from "3.prems"(2) have "y = Some (acc + v) \<or> y \<in> set (cumsum (acc + v) xs)"
    by simp
  then show ?case
  proof
    assume "y = Some (acc + v)"
    with v show ?thesis by (simp add: safe_int_def)
  next
    assume 2: "y \<in> set (cumsum (acc + v) xs)"
    from "3.IH" [OF rest 2] v show ?thesis by simp
  qed
qed


lemma cumsum_sorted:
  "\<forall>x \<in> set xs. \<exists>v\<ge>0. x = Some v \<Longrightarrow> sorted (map safe_int (cumsum acc xs))"
proof (induction acc xs rule: cumsum.induct)
  case (1 acc)
  then show ?case by simp
next
  case (2 acc xs)
  then show ?case by simp
next
  case (3 acc v xs)
  from "3.prems" have v: "0 \<le> v" and rest: "\<forall>x \<in> set xs. \<exists>v\<ge>0. x = Some v"
    by simp_all
  have "acc + v \<le> safe_int y" if "y \<in> set (cumsum (acc + v) xs)" for y
    using cumsum_ge [OF rest that] .
  with "3.IH" [OF rest] show ?case by (simp add: safe_int_def)
qed


lemma cumsum_last:
  "\<forall>x \<in> set xs. \<exists>v. x = Some v \<Longrightarrow> xs \<noteq> [] \<Longrightarrow>
     safe_int (last (cumsum acc xs)) = acc + sum_list (map safe_int xs)"
proof (induction acc xs rule: cumsum.induct)
  case (1 acc)
  then show ?case by simp
next
  case (2 acc xs)
  then show ?case by simp
next
  case (3 acc v xs)
  from "3.prems" have rest: "\<forall>x \<in> set xs. \<exists>v. x = Some v"
    by simp
  show ?case
  proof (cases "xs = []")
    case True
    then show ?thesis by (simp add: safe_int_def)
  next
    case False
    have "length (cumsum (acc + v) xs) \<noteq> 0"
      using False by simp
    then have ne: "cumsum (acc + v) xs \<noteq> []"
      by (simp del: cumsum_length)
    from "3.IH" [OF rest False] ne show ?thesis by (simp add: safe_int_def)
  qed
qed

lemma sum_list_map_mset_cong:
  fixes g :: "'a \<Rightarrow> int"
  shows "mset xs = mset ys \<Longrightarrow> sum_list (map g xs) = sum_list (map g ys)"
  by (metis mset_map sum_mset_sum_list)

lemma sum_list_filter_sort_key:
  fixes g :: "'a \<Rightarrow> int"
  shows "sum_list (map g (filter P (sort_key k xs))) = sum_list (map g (filter P xs))"
  by (rule sum_list_map_mset_cong) simp

lemma home_pts_sum:
  "\<forall>m \<in> set hs. result m \<in> {''H'', ''D'', ''A''} \<Longrightarrow>
     sum_list (map (\<lambda>m. safe_int (home_pts (result m))) hs)
       = len (filter (\<lambda>m. result m = ''H'') hs) * 3 + len (filter (\<lambda>m. result m = ''D'') hs)"
  by (induction hs) (auto simp: len_def home_pts_def safe_int_def)

lemma away_pts_sum:
  "\<forall>m \<in> set hs. result m \<in> {''H'', ''D'', ''A''} \<Longrightarrow>
     sum_list (map (\<lambda>m. safe_int (away_pts (result m))) hs)
       = len (filter (\<lambda>m. result m = ''A'') hs) * 3 + len (filter (\<lambda>m. result m = ''D'') hs)"
  by (induction hs) (auto simp: len_def away_pts_def safe_int_def)

lemma home_pts_valid: "r \<in> {''H'', ''D'', ''A''} \<Longrightarrow> \<exists>v\<ge>0. home_pts r = Some v"
  by (auto simp: home_pts_def)

lemma away_pts_valid: "r \<in> {''H'', ''D'', ''A''} \<Longrightarrow> \<exists>v\<ge>0. away_pts r = Some v"
  by (auto simp: away_pts_def)

lemma build_team_stats_points:
  "build_team_stats cur t = Inr r \<Longrightarrow>
     points r =
       (len (filter (\<lambda>m. result m = ''H'') (filter (\<lambda>m. home_team m = t) cur))
        + len (filter (\<lambda>m. result m = ''A'') (filter (\<lambda>m. away_team m = t) cur))) * 3
       + (len (filter (\<lambda>m. result m = ''D'') (filter (\<lambda>m. home_team m = t) cur))
          + len (filter (\<lambda>m. result m = ''D'') (filter (\<lambda>m. away_team m = t) cur)))"
  by (auto simp: build_team_stats_def Let_def py_truediv_def split: if_splits)

lemma all_matches_pts_valid:
  assumes "\<forall>m \<in> set cur. result m \<in> {''H'', ''D'', ''A''}"
  shows "\<forall>x \<in> set (map snd (all_matches cur t)). \<exists>v\<ge>0. x = Some v"
  using assms by (auto simp: all_matches_def Let_def home_pts_def away_pts_def)

lemma all_matches_sum:
  "sum_list (map safe_int (map snd (all_matches cur t)))
     = sum_list (map (\<lambda>m. safe_int (home_pts (result m))) (filter (\<lambda>m. home_team m = t) cur))
       + sum_list (map (\<lambda>m. safe_int (away_pts (result m))) (filter (\<lambda>m. away_team m = t) cur))"
proof -
  let ?hs = "filter (\<lambda>m. home_team m = t) (sort_key date cur)"
  let ?as = "filter (\<lambda>m. away_team m = t) (sort_key date cur)"
  let ?un = "map (\<lambda>m. (date m, home_pts (result m))) ?hs
               @ map (\<lambda>m. (date m, away_pts (result m))) ?as"
  have "sum_list (map (\<lambda>p. safe_int (snd p)) (sort_key fst ?un))
          = sum_list (map (\<lambda>p. safe_int (snd p)) ?un)"
    by (rule sum_list_map_mset_cong) simp
  also have "\<dots> = sum_list (map (\<lambda>m. safe_int (home_pts (result m))) ?hs)
                   + sum_list (map (\<lambda>m. safe_int (away_pts (result m))) ?as)"
    by (simp add: comp_def)
  finally show ?thesis
    by (simp add: all_matches_def Let_def comp_def sum_list_filter_sort_key)
qed

lemma all_matches_nonempty:
  assumes "t \<in> set (teams_of cur)"
  shows "all_matches cur t \<noteq> []"
proof -
  from assms obtain m where m: "m \<in> set cur" "home_team m = t \<or> away_team m = t"
    by (auto simp: teams_of_def)
  then have "m \<in> set (filter (\<lambda>m. home_team m = t) (sort_key date cur))
           \<or> m \<in> set (filter (\<lambda>m. away_team m = t) (sort_key date cur))"
    by auto
  then have "filter (\<lambda>m. home_team m = t) (sort_key date cur) \<noteq> []
           \<or> filter (\<lambda>m. away_team m = t) (sort_key date cur) \<noteq> []"
    by (metis empty_iff list.set(1))
  then have "length (all_matches cur t) \<noteq> 0"
    unfolding all_matches_def Let_def by simp
  then show ?thesis by simp
qed

lemma cumulative_series_matchday:
  "map matchday (cumulative_series cur t) = [1..<Suc (length (cumulative_series cur t))]"
proof -
  have "map matchday (cumulative_series cur t) = map Suc [0..<length (cumulative_series cur t)]"
    by (rule nth_equalityI) (simp_all add: cumulative_series_def nth_enumerate_eq)
  then show ?thesis
    by (simp only: map_Suc_upt One_nat_def)
qed

lemma cumulative_series_points:
  "map cum_points (cumulative_series cur t)
     = map safe_int (cumsum 0 (map snd (all_matches cur t)))"
  by (rule nth_equalityI) (simp_all add: cumulative_series_def nth_enumerate_eq)

lemma length_cumulative_series [simp]:
  "length (cumulative_series cur t) = length (all_matches cur t)"
  by (simp add: cumulative_series_def)

lemma league_table_rows:
  assumes "league_table cur = Inr tbl"
  shows "\<exists>rows. traverse (build_team_stats cur) (teams_of cur) = Inr rows
           \<and> tbl = assign_positions (sort_key table_key rows)"
  using assms table_rows_total [of cur] by (auto simp: league_table_def)

lemma assign_positions_mem:
  assumes "row \<in> set (assign_positions rows)"
  shows "\<exists>r \<in> set rows. \<exists>p. row = r\<lparr>position := p\<rparr>"
proof -
  from assms obtain i where "i < length rows" "row = assign_positions rows ! i"
    by (metis in_set_conv_nth length_assign_positions)
  then show ?thesis
    by (auto simp: nth_assign_positions)
qed

lemma assign_positions_mem_conv:
  assumes "r \<in> set rows"
  shows "\<exists>p. r\<lparr>position := p\<rparr> \<in> set (assign_positions rows)"
proof -
  from assms obtain i where i: "i < length rows" "r = rows ! i"
    by (metis in_set_conv_nth)
  then have "assign_positions rows ! i \<in> set (assign_positions rows)"
    by simp
  with i show ?thesis
    by (auto simp: nth_assign_positions)
qed

lemma list_all2_right_mem:
  "list_all2 P xs ys \<Longrightarrow> y \<in> set ys \<Longrightarrow> \<exists>x \<in> set xs. P x y"
  by (induction rule: list_all2_induct) auto

lemma cumsum_eq_Nil [simp]: "cumsum acc xs = [] \<longleftrightarrow> xs = []"
  by (induction acc xs rule: cumsum.induct) simp_all

lemma league_table_row:
  assumes "league_table cur = Inr tbl" and "row \<in> set tbl"
  shows "team row \<in> set (teams_of cur)
         \<and> (\<exists>r p. build_team_stats cur (team row) = Inr r \<and> row = r\<lparr>position := p\<rparr>)"
proof -
  from assms(1) obtain rows
    where rows: "traverse (build_team_stats cur) (teams_of cur) = Inr rows"
      and tbl: "tbl = assign_positions (sort_key table_key rows)"
    using league_table_rows by blast
  from assms(2) have "row \<in> set (assign_positions (sort_key table_key rows))"
    by (simp add: tbl)
  from assign_positions_mem [OF this]
  obtain r p where r: "r \<in> set (sort_key table_key rows)" "row = r\<lparr>position := p\<rparr>"
    by blast
  from r(1) have r_in: "r \<in> set rows"
    by simp
  from rows have la: "list_all2 (\<lambda>t r. build_team_stats cur t = Inr r) (teams_of cur) rows"
    by (simp add: traverse_list_all2)
  from list_all2_right_mem [OF la r_in]
  obtain t where t: "t \<in> set (teams_of cur)" "build_team_stats cur t = Inr r"
    by blast
  from t(2) have "team r = t"
    by (rule build_team_stats_team)
  then have tr: "team row = t"
    using r(2) by simp
  have "\<exists>r p. build_team_stats cur (team row) = Inr r \<and> row = r\<lparr>position := p\<rparr>"
    unfolding tr using t(2) r(2) by blast
  with t(1) tr show ?thesis by simp
qed

lemma league_table_has_team:
  assumes "league_table cur = Inr tbl" and "t \<in> set (teams_of cur)"
  shows "\<exists>row \<in> set tbl. team row = t"
proof -
  from assms(1) obtain rows
    where rows: "traverse (build_team_stats cur) (teams_of cur) = Inr rows"
      and tbl: "tbl = assign_positions (sort_key table_key rows)"
    using league_table_rows by blast
  from rows have "map team rows = teams_of cur"
    by (rule table_rows_teams)
  with assms(2) obtain r where r: "r \<in> set rows" "team r = t"
    by (metis (no_types, lifting) imageE list.set_map)
  then have "r \<in> set (sort_key table_key rows)" by simp
  then obtain p where "r\<lparr>position := p\<rparr> \<in> set tbl"
    unfolding tbl using assign_positions_mem_conv by blast
  moreover have "team (r\<lparr>position := p\<rparr>) = t"
    using r(2) by simp
  ultimately show ?thesis by blast
qed

lemma map_of_tabulate:
  "t \<in> set ts \<Longrightarrow> map_of (map (\<lambda>t. (t, f t)) ts) t = Some (f t)"
  by (induction ts) auto

lemma league_table_total: "\<exists>tbl. league_table cur = Inr tbl"
  using table_rows_total [of cur] by (auto simp: league_table_def)

text \<open>
  C4. In a season whose records carry the result codes H, D and A, the cumulative-points
  series of every team is indexed by the matchdays 1, 2, ..., is non-decreasing, and its
  final value is the points of that team's row of the league table. (A result outside
  the three codes maps to NaN, which \<open>safe_int\<close> turns into 0 at that matchday.)
\<close>

theorem cumulative_points_series:
  assumes valid: "\<forall>m \<in> set current. result m \<in> {''H'', ''D'', ''A''}"
    and t: "t \<in> set (teams_of current)"
  shows "\<exists>tbl s. league_table current = Inr tbl
           \<and> map_of (cumulative_points current) t = Some s
           \<and> s \<noteq> []
           \<and> map matchday s = [1..<Suc (length s)]
           \<and> sorted (map cum_points s)
           \<and> (\<exists>row \<in> set tbl. team row = t)
           \<and> (\<forall>row \<in> set tbl. team row = t \<longrightarrow> points row = cum_points (last s))"
proof -
  obtain tbl where tbl: "league_table current = Inr tbl"
    using league_table_total by blast
  define s where "s = cumulative_series current t"
  let ?P = "map snd (all_matches current t)"
  have pv: "\<forall>x \<in> set ?P. \<exists>v\<ge>0. x = Some v"
    using valid by (rule all_matches_pts_valid)
  then have pv': "\<forall>x \<in> set ?P. \<exists>v. x = Some v"
    by blast
  have ne: "?P \<noteq> []"
    using all_matches_nonempty [OF t] by simp
  have lookup: "map_of (cumulative_points current) t = Some s"
    unfolding cumulative_points_def s_def using t by (rule map_of_tabulate)
  have s_ne: "s \<noteq> []"
    using all_matches_nonempty [OF t] length_cumulative_series [of current t]
    unfolding s_def by (metis length_0_conv)
  have md: "map matchday s = [1..<Suc (length s)]"
    unfolding s_def by (rule cumulative_series_matchday)
  have srt: "sorted (map cum_points s)"
    unfolding s_def cumulative_series_points using pv by (rule cumsum_sorted)
  have "cum_points (last s) = last (map cum_points s)"
    using s_ne by (simp add: last_map)
  also have "\<dots> = safe_int (last (cumsum 0 ?P))"
    unfolding s_def cumulative_series_points
    using ne by (simp add: last_map)
  also have "\<dots> = sum_list (map safe_int ?P)"
    using cumsum_last [OF pv' ne, of 0] by simp
  finally have final: "cum_points (last s) =
      sum_list (map (\<lambda>m. safe_int (home_pts (result m)))
                  (filter (\<lambda>m. home_team m = t) current))
      + sum_list (map (\<lambda>m. safe_int (away_pts (result m)))
                    (filter (\<lambda>m. away_team m = t) current))"
    by (simp only: all_matches_sum)
  have pts: "points row = cum_points (last s)" if "row \<in> set tbl" "team row = t" for row
  proof -
    from league_table_row [OF tbl that(1)] that(2)
    obtain r p where r: "build_team_stats current t = Inr r" "row = r\<lparr>position := p\<rparr>"
      by auto
    have hv: "\<forall>m \<in> set (filter (\<lambda>m. home_team m = t) current). result m \<in> {''H'', ''D'', ''A''}"
      and av: "\<forall>m \<in> set (filter (\<lambda>m. away_team m = t) current). result m \<in> {''H'', ''D'', ''A''}"
      using valid by simp_all
    have "points row = points r"
      using r(2) by simp
    then show ?thesis
      unfolding final home_pts_sum [OF hv] away_pts_sum [OF av]
        build_team_stats_points [OF r(1)] by simp
  qed
  have "league_table current = Inr tbl
           \<and> map_of (cumulative_points current) t = Some s
           \<and> s \<noteq> []
           \<and> map matchday s = [1..<Suc (length s)]
           \<and> sorted (map cum_points s)
           \<and> (\<exists>row \<in> set tbl. team row = t)
           \<and> (\<forall>row \<in> set tbl. team row = t \<longrightarrow> points row = cum_points (last s))"
    using tbl lookup s_ne md srt league_table_has_team [OF tbl t] pts by simp
  then show ?thesis by (intro exI)
qed

theorem cumulative_points_series_witness:
  "''Arsenal'' \<in> set (teams_of ex_season)
   \<and> (\<exists>tbl s. league_table ex_season = Inr tbl
           \<and> map_of (cumulative_points ex_season) ''Arsenal'' = Some s
           \<and> s \<noteq> []
           \<and> map matchday s = [1..<Suc (length s)]
           \<and> sorted (map cum_points s)
           \<and> (\<exists>row \<in> set tbl. team row = ''Arsenal'' \<and> points row = cum_points (last s)))"
proof -
  have h1: "\<forall>m \<in> set ex_season. result m \<in> {''H'', ''D'', ''A''}"
    by (simp add: ex_season_def mk_match_def)
  have h2: "''Arsenal'' \<in> set (teams_of ex_season)"
    by code_simp
  from cumulative_points_series [OF h1 h2]
  obtain tbl s where tbl: "league_table ex_season = Inr tbl"
    and s: "map_of (cumulative_points ex_season) ''Arsenal'' = Some s" "s \<noteq> []"
      "map matchday s = [1..<Suc (length s)]" "sorted (map cum_points s)"
    and ex: "\<exists>row \<in> set tbl. team row = ''Arsenal''"
    and all: "\<forall>row \<in> set tbl. team row = ''Arsenal'' \<longrightarrow> points row = cum_points (last s)"
    by blast
  from ex all have "\<exists>row \<in> set tbl. team row = ''Arsenal'' \<and> points row = cum_points (last s)"
    by blast
  with h2 tbl s show ?thesis by blast
qed

lemma cumulative_series_example:
  "cumulative_series ex_season ''Arsenal''
     = [\<lparr>matchday = 1, cum_points = 3\<rparr>, \<lparr>matchday = 2, cum_points = 6\<rparr>]"
  by code_simp

section \<open>Rounding, and totality of the optional sections\<close>



lemma py_round_zero [simp]: "py_round 0 d = 0"
  by (simp add: py_round_def round_half_even_def)

lemma xg_team_step_total: "\<exists>s. xg_team_step tbl row = Inr s"
  by (simp add: xg_team_step_def Let_def py_truediv_def split: option.split)

lemma xg_team_step_table_row:
  assumes "xg_team_step tbl row = Inr (a, b, c)"
  shows "xr_team a = xt_team row"
    and "actual_points a = (case find (\<lambda>tr. team tr = xt_team row) tbl of
                              None \<Rightarrow> 0 | Some tr \<Rightarrow> points tr)"
  using assms
  by (auto simp: xg_team_step_def Let_def py_truediv_def split: option.splits if_splits)


lemma xg_analytics_total: "\<exists>r. xg_analytics tbl xt = Inr r"
proof -
  obtain steps where "traverse (xg_team_step tbl) xt = Inr steps"
    using traverse_total [of xt "xg_team_step tbl"] xg_team_step_total by blast
  then show ?thesis by (simp add: xg_analytics_def)
qed

lemma xg_analytics_steps:
  assumes "xg_analytics tbl xt = Inr (a, b, c)"
  shows "\<exists>steps. list_all2 (\<lambda>row s. xg_team_step tbl row = Inr s) xt steps
           \<and> a = sort_key (\<lambda>x. - xg_difference x) (map fst steps)
           \<and> b = map (\<lambda>s. fst (snd s)) steps
           \<and> c = sort_key (\<lambda>x. - xg_per_shot x) (List.map_filter (\<lambda>s. snd (snd s)) steps)"
proof -
  obtain steps where st: "traverse (xg_team_step tbl) xt = Inr steps"
    using traverse_total [of xt "xg_team_step tbl"] xg_team_step_total by blast
  with assms have "a = sort_key (\<lambda>x. - xg_difference x) (map fst steps)
           \<and> b = map (\<lambda>s. fst (snd s)) steps
           \<and> c = sort_key (\<lambda>x. - xg_per_shot x) (List.map_filter (\<lambda>s. snd (snd s)) steps)"
    by (simp add: xg_analytics_def)
  with st show ?thesis
    unfolding traverse_list_all2 by blast
qed

lemma list_all2_left_mem:
  "list_all2 P xs ys \<Longrightarrow> x \<in> set xs \<Longrightarrow> \<exists>y \<in> set ys. P x y"
  by (induction rule: list_all2_induct) auto

lemma xg_table_unknown_team:
  assumes an: "xg_analytics tbl xt = Inr (a, b, c)"
    and r: "r \<in> set xt"
    and unknown: "xt_team r \<notin> team ` set tbl"
  shows "\<exists>row \<in> set a. xr_team row = xt_team r \<and> actual_points row = 0"
proof -
  from xg_analytics_steps [OF an] obtain steps
    where la: "list_all2 (\<lambda>row s. xg_team_step tbl row = Inr s) xt steps"
      and a: "a = sort_key (\<lambda>x. - xg_difference x) (map fst steps)"
    by blast
  from list_all2_left_mem [OF la r] obtain s
    where s: "s \<in> set steps" "xg_team_step tbl r = Inr s"
    by blast
  obtain ra rb rc where sp: "s = (ra, rb, rc)"
    by (cases s) auto
  from unknown have "\<forall>tr \<in> set tbl. team tr \<noteq> xt_team r"
    by (metis imageI)
  then have "find (\<lambda>tr. team tr = xt_team r) tbl = None"
    by (simp add: find_None_iff)
  with xg_team_step_table_row [of tbl r ra rb rc] s(2) sp
  have "xr_team ra = xt_team r" "actual_points ra = 0"
    by simp_all
  moreover have "ra \<in> set a"
    using s(1) sp a by force
  ultimately show ?thesis by blast
qed

lemma per90_total: "\<exists>r. per90 stat mins = Inr r"
  by (simp add: per90_def py_truediv_def)

lemma goal_scorer_total: "\<exists>r. goal_scorer u idx p = Inr r"
proof -
  obtain i row where p: "p = (i, row)" by (cases p)
  obtain g where "per90 (safe_int (Some (goals row))) (safe_int (Some (minutes row))) = Inr g"
    using per90_total by blast
  then show ?thesis
    by (simp add: goal_scorer_def p Let_def)
qed

lemma assist_leader_total: "\<exists>r. assist_leader u idx p = Inr r"
proof -
  obtain i row where p: "p = (i, row)" by (cases p)
  obtain g where "per90 (safe_int (Some (assists row))) (safe_int (Some (minutes row))) = Inr g"
    using per90_total by blast
  then show ?thesis
    by (simp add: assist_leader_def p Let_def)
qed

lemma iron_man_total:
  assumes "t \<in> set (map p_team fpl)"
  shows "\<exists>r. iron_man fpl t = Inr r"
proof -
  from assms have "filter (\<lambda>p. p_team p = t) fpl \<noteq> []"
    by (auto simp: filter_empty_conv)
  then have "length (sort_key (\<lambda>p. - minutes p) (filter (\<lambda>p. p_team p = t) fpl)) \<noteq> 0"
    by simp
  then obtain top rest
    where "sort_key (\<lambda>p. - minutes p) (filter (\<lambda>p. p_team p = t) fpl) = top # rest"
    by (cases "sort_key (\<lambda>p. - minutes p) (filter (\<lambda>p. p_team p = t) fpl)") simp_all
  then show ?thesis
    by (simp add: iron_man_def Let_def)
qed

lemma goals_by_pos_total: "\<exists>r. goals_by_pos fpl pos = Inr r"
  by (simp add: goals_by_pos_def Let_def py_truediv_def)

lemma build_leaderboards_total: "\<exists>lb. build_leaderboards u idx fpl = Inr lb"
proof -
  obtain gs where gs: "traverse (goal_scorer u idx)
      (enumerate 0 (take 20 (sort_key (\<lambda>p. - goals p) (filter (\<lambda>p. goals p > 0) fpl)))) = Inr gs"
    using traverse_total goal_scorer_total by meson
  obtain al where al: "traverse (assist_leader u idx)
      (enumerate 0 (take 15 (sort_key (\<lambda>p. - assists p) (filter (\<lambda>p. assists p > 0) fpl)))) = Inr al"
    using traverse_total assist_leader_total by meson
  have "\<exists>r. iron_man fpl t = Inr r" if "t \<in> set (sorted_list_of_set (set (map p_team fpl)))" for t
    using that iron_man_total [of t fpl] by simp
  then obtain im where im: "traverse (iron_man fpl) (sorted_list_of_set (set (map p_team fpl))) = Inr im"
    using traverse_total [of "sorted_list_of_set (set (map p_team fpl))" "iron_man fpl"] by blast
  obtain gp where gp: "traverse (goals_by_pos fpl) [''FWD'', ''MID'', ''DEF'', ''GK''] = Inr gp"
    using traverse_total goals_by_pos_total by meson
  show ?thesis
    unfolding build_leaderboards_def Let_def gs al im gp by simp
qed

lemma money_step_total: "\<exists>r. money_step tbl p = Inr r"
  by (cases p) (simp add: money_step_def Let_def py_truediv_def split: option.split)

lemma fit_line_total: "vals \<noteq> [] \<Longrightarrow> \<exists>f. fit_line vals pts = Inr f"
  by (simp add: fit_line_def Let_def py_truediv_def len_def)

lemma regression_of_total: "vals \<noteq> [] \<Longrightarrow> \<exists>r. regression_of vals pts = Inr r"
  using fit_line_total [of vals pts]
  by (auto simp: regression_of_def Let_def py_truediv_def)

lemma money_vs_points_of_total: "\<exists>r. money_vs_points_of tbl fpl = Inr r"
proof -
  obtain steps where st: "traverse (money_step tbl) (squad_values fpl) = Inr steps"
    using traverse_total money_step_total by meson
  show ?thesis
  proof (cases "List.map_filter id steps = []")
    case True
    with st show ?thesis by (simp add: money_vs_points_of_def)
  next
    case False
    let ?vals = "map (\<lambda>(t, v, p, pl, ppm). v) (List.map_filter id steps)"
    let ?pts = "map (\<lambda>(t, v, p, pl, ppm). p) (List.map_filter id steps)"
    from False have ne: "?vals \<noteq> []" by simp
    obtain f r where "fit_line ?vals ?pts = Inr f" "regression_of ?vals ?pts = Inr r"
      using fit_line_total [OF ne] regression_of_total [OF ne] by blast
    with st False show ?thesis by (simp add: money_vs_points_of_def Let_def)
  qed
qed

section \<open>The assembled document\<close>

lemma try_read_csv_simps [simp]:
  "try_read_csv Missing = Inr None"
  "try_read_csv NoColumns = Inl EmptyDataError"
  "try_read_csv (Rows rows) = Inr (Some rows)"
  by (simp_all add: try_read_csv_def read_csv_def)

lemma read_csv_simps [simp]:
  "read_csv Missing = Inl FileNotFoundError"
  "read_csv NoColumns = Inl EmptyDataError"
  "read_csv (Rows rows) = Inr rows"
  by (simp_all add: read_csv_def)

lemma main_Rows:
  assumes m: "matches_csv inp = Rows df"
    and p: "try_read_csv (players_csv inp) = Inr players_df"
    and x: "load_xg inp = Inr xg_dfs"
    and t: "league_table (filter (\<lambda>m. season m = CURRENT_SEASON) df) = Inr tbl"
    and xs: "(case xg_dfs of None \<Rightarrow> Inr None
              | Some (xg_teams_df, xg_players_df) \<Rightarrow>
                  bind_err (xg_analytics tbl xg_teams_df) (\<lambda>r. Inr (Some r))) = Inr xg_sections"
    and lb: "(case players_df of None \<Rightarrow> Inr None
              | Some fpl \<Rightarrow>
                  bind_err (build_leaderboards u (build_xg_index u (map_option snd xg_dfs)) fpl)
                    (\<lambda>r. Inr (Some r))) = Inr lbs"
    and mv: "(case players_df of None \<Rightarrow> Inr None
              | Some fpl \<Rightarrow> money_vs_points_of tbl fpl) = Inr mvp"
  shows "main u now inp =
     Inr \<lparr>generated_at = now,
          doc_season = CURRENT_SEASON,
          source = ''football-data.co.uk'',
          total_matches = safe_int (Some (len (filter (\<lambda>m. season m = CURRENT_SEASON) df))),
          doc_season_status = season_status_of (filter (\<lambda>m. season m = CURRENT_SEASON) df),
          league_table_section = tbl,
          cumulative_points_section =
            cumulative_points (filter (\<lambda>m. season m = CURRENT_SEASON) df),
          xg_table = map_option fst xg_sections,
          xg_vs_actual = map_option (\<lambda>r. fst (snd r)) xg_sections,
          shot_quality = map_option (\<lambda>r. snd (snd r)) xg_sections,
          player_leaderboards = lbs,
          money_vs_points = mvp\<rparr>"
  unfolding main_def m p x csv.case read_csv_simps bind_err_Inr Let_def t xs lb mv ..

lemma xg_sections_total:
  "\<exists>r. (case xg_dfs of None \<Rightarrow> Inr None
         | Some (xg_teams_df, xg_players_df) \<Rightarrow>
             bind_err (xg_analytics tbl xg_teams_df) (\<lambda>r. Inr (Some r))) = Inr r"
proof (cases xg_dfs)
  case None
  then show ?thesis by simp
next
  case (Some pr)
  obtain xt xp where pr: "pr = (xt, xp)" by (cases pr)
  obtain r where "xg_analytics tbl xt = Inr r"
    using xg_analytics_total by blast
  with Some pr show ?thesis by simp
qed

lemma leaderboards_section_total:
  "\<exists>r. (case players_df of None \<Rightarrow> Inr None
         | Some fpl \<Rightarrow> bind_err (build_leaderboards u idx fpl) (\<lambda>r. Inr (Some r))) = Inr r"
proof (cases players_df)
  case None
  then show ?thesis by simp
next
  case (Some fpl)
  obtain r where "build_leaderboards u idx fpl = Inr r"
    using build_leaderboards_total by blast
  with Some show ?thesis by simp
qed

lemma money_section_total:
  "\<exists>r. (case players_df of None \<Rightarrow> Inr None
         | Some fpl \<Rightarrow> money_vs_points_of tbl fpl) = Inr r"
  using money_vs_points_of_total by (cases players_df) simp_all

lemma main_total:
  assumes m: "matches_csv inp = Rows df"
    and p: "try_read_csv (players_csv inp) = Inr players_df"
    and x: "load_xg inp = Inr xg_dfs"
  shows "\<exists>doc. main u now inp = Inr doc"
proof -
  obtain tbl where t: "league_table (filter (\<lambda>m. season m = CURRENT_SEASON) df) = Inr tbl"
    using league_table_total by blast
  obtain xg_sections lbs mvp
    where "(case xg_dfs of None \<Rightarrow> Inr None
              | Some (xg_teams_df, xg_players_df) \<Rightarrow>
                  bind_err (xg_analytics tbl xg_teams_df) (\<lambda>r. Inr (Some r))) = Inr xg_sections"
      and "(case players_df of None \<Rightarrow> Inr None
              | Some fpl \<Rightarrow>
                  bind_err (build_leaderboards u (build_xg_index u (map_option snd xg_dfs)) fpl)
                    (\<lambda>r. Inr (Some r))) = Inr lbs"
      and "(case players_df of None \<Rightarrow> Inr None
              | Some fpl \<Rightarrow> money_vs_points_of tbl fpl) = Inr mvp"
    using xg_sections_total leaderboards_section_total money_section_total by metis
  from main_Rows [OF m p x t this] show ?thesis by blast
qed


lemma main_readable:
  assumes m: "matches_csv inp = Rows df"
    and p: "players_csv inp \<noteq> NoColumns"
    and x: "load_xg inp = Inr xg_dfs"
  shows "\<exists>doc tbl.
     main u now inp = Inr doc
     \<and> league_table (filter (\<lambda>m. season m = CURRENT_SEASON) df) = Inr tbl
     \<and> league_table_section doc = tbl
     \<and> generated_at doc = now
     \<and> total_matches doc = len (filter (\<lambda>m. season m = CURRENT_SEASON) df)
     \<and> doc_season_status doc = season_status_of (filter (\<lambda>m. season m = CURRENT_SEASON) df)
     \<and> cumulative_points_section doc
           = cumulative_points (filter (\<lambda>m. season m = CURRENT_SEASON) df)
     \<and> (case xg_dfs of
           None \<Rightarrow> xg_table doc = None \<and> xg_vs_actual doc = None \<and> shot_quality doc = None
         | Some (xt, xp) \<Rightarrow>
             (\<exists>a b c. xg_analytics tbl xt = Inr (a, b, c) \<and> xg_table doc = Some a
                      \<and> xg_vs_actual doc = Some b \<and> shot_quality doc = Some c))
     \<and> (case players_csv inp of
           Missing \<Rightarrow> player_leaderboards doc = None \<and> money_vs_points doc = None
         | NoColumns \<Rightarrow> False
         | Rows fpl \<Rightarrow>
             (\<exists>lb. build_leaderboards u (build_xg_index u (map_option snd xg_dfs)) fpl = Inr lb
                   \<and> player_leaderboards doc = Some lb)
             \<and> money_vs_points_of tbl fpl = Inr (money_vs_points doc))"
proof -
  let ?cur = "filter (\<lambda>m. season m = CURRENT_SEASON) df"
  obtain tbl where t: "league_table ?cur = Inr tbl"
    using league_table_total by blast
  define players_df where
    "players_df = (case players_csv inp of Rows fpl \<Rightarrow> Some fpl | _ \<Rightarrow> None)"
  have pr: "try_read_csv (players_csv inp) = Inr players_df"
    using p by (cases "players_csv inp") (simp_all add: players_df_def)
  obtain xg_sections
    where xs: "(case xg_dfs of None \<Rightarrow> Inr None
              | Some (xg_teams_df, xg_players_df) \<Rightarrow>
                  bind_err (xg_analytics tbl xg_teams_df) (\<lambda>r. Inr (Some r))) = Inr xg_sections"
    using xg_sections_total by blast
  obtain lbs
    where lb: "(case players_df of None \<Rightarrow> Inr None
              | Some fpl \<Rightarrow>
                  bind_err (build_leaderboards u (build_xg_index u (map_option snd xg_dfs)) fpl)
                    (\<lambda>r. Inr (Some r))) = Inr lbs"
    using leaderboards_section_total by blast
  obtain mvp
    where mv: "(case players_df of None \<Rightarrow> Inr None
              | Some fpl \<Rightarrow> money_vs_points_of tbl fpl) = Inr mvp"
    using money_section_total by blast
  define doc where "doc = \<lparr>generated_at = now,
          doc_season = CURRENT_SEASON,
          source = ''football-data.co.uk'',
          total_matches = safe_int (Some (len ?cur)),
          doc_season_status = season_status_of ?cur,
          league_table_section = tbl,
          cumulative_points_section = cumulative_points ?cur,
          xg_table = map_option fst xg_sections,
          xg_vs_actual = map_option (\<lambda>r. fst (snd r)) xg_sections,
          shot_quality = map_option (\<lambda>r. snd (snd r)) xg_sections,
          player_leaderboards = lbs,
          money_vs_points = mvp\<rparr>"
  have doc: "main u now inp = Inr doc"
    unfolding doc_def by (rule main_Rows [OF m pr x t xs lb mv])
  have basics: "league_table_section doc = tbl" "generated_at doc = now"
    "total_matches doc = len ?cur" "doc_season_status doc = season_status_of ?cur"
    "cumulative_points_section doc = cumulative_points ?cur"
    by (simp_all add: doc_def safe_int_def)
  have xg_part: "(case xg_dfs of
           None \<Rightarrow> xg_table doc = None \<and> xg_vs_actual doc = None \<and> shot_quality doc = None
         | Some (xt, xp) \<Rightarrow>
             (\<exists>a b c. xg_analytics tbl xt = Inr (a, b, c) \<and> xg_table doc = Some a
                      \<and> xg_vs_actual doc = Some b \<and> shot_quality doc = Some c))"
  proof (cases xg_dfs)
    case None
    with xs show ?thesis by (auto simp: doc_def)
  next
    case (Some pr)
    obtain xt xp where pr: "pr = (xt, xp)" by (cases pr)
    obtain a b c where abc: "xg_analytics tbl xt = Inr (a, b, c)"
      using xg_analytics_total [of tbl xt] by (metis prod_cases3)
    with xs Some pr have "xg_sections = Some (a, b, c)" by auto
    with Some pr abc show ?thesis by (simp add: doc_def)
  qed
  have fpl_part: "(case players_csv inp of
           Missing \<Rightarrow> player_leaderboards doc = None \<and> money_vs_points doc = None
         | NoColumns \<Rightarrow> False
         | Rows fpl \<Rightarrow>
             (\<exists>lb. build_leaderboards u (build_xg_index u (map_option snd xg_dfs)) fpl = Inr lb
                   \<and> player_leaderboards doc = Some lb)
             \<and> money_vs_points_of tbl fpl = Inr (money_vs_points doc))"
  proof (cases "players_csv inp")
    case Missing
    with lb mv show ?thesis by (simp add: players_df_def doc_def)
  next
    case NoColumns
    with p show ?thesis by simp
  next
    case (Rows fpl)
    obtain r where r: "build_leaderboards u (build_xg_index u (map_option snd xg_dfs)) fpl = Inr r"
      using build_leaderboards_total by blast
    with lb mv Rows show ?thesis by (auto simp: players_df_def doc_def)
  qed
  from doc t basics xg_part fpl_part show ?thesis
    by blast
qed

section \<open>The xG table\<close>

lemma load_xg_Rows:
  "xg_teams_csv inp = Rows xt \<Longrightarrow> xg_players_csv inp = Rows xp \<Longrightarrow>
     load_xg inp = Inr (Some (xt, xp))"
  by (simp add: load_xg_def)

text \<open>
  C10. When the expected-goals source is available (both of its files are read), every
  row of the xG team dataset whose team does not appear in the league table still has a
  row in the xG table, with \<open>actual_points\<close> 0; the run does not fail.
\<close>

theorem xg_table_unknown_team_zero_points:
  assumes "matches_csv inp = Rows df"
    and "players_csv inp \<noteq> NoColumns"
    and "xg_teams_csv inp = Rows xt"
    and "xg_players_csv inp = Rows xp"
  shows "\<exists>doc tab. main u now inp = Inr doc \<and> xg_table doc = Some tab
           \<and> (\<forall>r \<in> set xt. xt_team r \<notin> team ` set (league_table_section doc) \<longrightarrow>
                 (\<exists>row \<in> set tab. xr_team row = xt_team r \<and> actual_points row = 0))"
proof -
  from main_readable [OF assms(1,2) load_xg_Rows [OF assms(3,4)], of u now]
  obtain doc a b c where doc: "main u now inp = Inr doc"
    and an: "xg_analytics (league_table_section doc) xt = Inr (a, b, c)"
    and tab: "xg_table doc = Some a"
    by auto
  have "\<exists>row \<in> set a. xr_team row = xt_team r \<and> actual_points row = 0"
    if "r \<in> set xt" "xt_team r \<notin> team ` set (league_table_section doc)" for r
    using an that by (rule xg_table_unknown_team)
  with doc tab show ?thesis by blast
qed

theorem xg_table_unknown_team_zero_points_witness:
  "\<exists>doc tab. main ascii_tables ''2026-01-10T12:00:00'' ex_inputs = Inr doc
      \<and> xg_table doc = Some tab
      \<and> ''Everton'' \<notin> team ` set (league_table_section doc)
      \<and> (\<exists>row \<in> set tab. xr_team row = ''Everton'' \<and> actual_points row = 0)"
proof -
  have h: "matches_csv ex_inputs = Rows ex_season" "players_csv ex_inputs \<noteq> NoColumns"
    "xg_teams_csv ex_inputs = Rows ex_xg_teams" "xg_players_csv ex_inputs = Rows ex_xg_players"
    by (simp_all add: ex_inputs_def)
  have ev: "map_sum id (\<lambda>d. map team (league_table_section d))
              (main ascii_tables ''2026-01-10T12:00:00'' ex_inputs)
            = Inr [''Arsenal'', ''Chelsea'', ''Burnley'']"
    by code_simp
  from xg_table_unknown_team_zero_points [OF h, of ascii_tables "''2026-01-10T12:00:00''"]
  obtain doc tab where doc: "main ascii_tables ''2026-01-10T12:00:00'' ex_inputs = Inr doc"
    and tab: "xg_table doc = Some tab"
    and zero: "\<forall>r \<in> set ex_xg_teams.
                 xt_team r \<notin> team ` set (league_table_section doc) \<longrightarrow>
                 (\<exists>row \<in> set tab. xr_team row = xt_team r \<and> actual_points row = 0)"
    by blast
  from ev doc have "map team (league_table_section doc) = [''Arsenal'', ''Chelsea'', ''Burnley'']"
    by simp
  then have "team ` set (league_table_section doc) = {''Arsenal'', ''Chelsea'', ''Burnley''}"
    by (metis list.set_map list.simps(15) empty_set)
  then have unknown: "''Everton'' \<notin> team ` set (league_table_section doc)"
    by simp
  have "\<lparr>xt_team = ''Everton'', xg_for = Some 2, xg_against = Some (5 / 2),
         xt_goals_for = Some 2, xt_goals_against = Some 2\<rparr> \<in> set ex_xg_teams"
    by (simp add: ex_xg_teams_def)
  with zero unknown
  have "\<exists>row \<in> set tab. xr_team row = ''Everton'' \<and> actual_points row = 0"
    by fastforce
  with doc tab unknown show ?thesis by blast
qed

section \<open>Shot accuracy and shot quality\<close>



lemma map_team_assign_positions [simp]:
  "map team (assign_positions rows) = map team rows"
  by (rule nth_equalityI) (simp_all add: nth_assign_positions)










section \<open>A missing or empty match dataset\<close>

lemma teams_of_Nil [simp]: "teams_of [] = []"
  by (simp add: teams_of_def)

lemma league_table_Nil [simp]: "league_table [] = Inr []"
  by (simp add: league_table_def assign_positions_def)

lemma cumulative_points_Nil [simp]: "cumulative_points [] = []"
  by (simp add: cumulative_points_def)

lemma season_status_of_Nil:
  "season_status_of [] =
     \<lparr>matches_played = 0, matches_total = 380, matchdays_played = 0, matchdays_total = 38,
      is_complete = False, last_match_date = []\<rparr>"
  by (simp add: season_status_of_def len_def safe_int_def FULL_SEASON_MATCHES_def)

lemma main_Missing: "matches_csv inp = Missing \<Longrightarrow> main u now inp = Inl (SysExit 1)"
  by (simp add: main_def)

lemma main_NoColumns: "matches_csv inp = NoColumns \<Longrightarrow> main u now inp = Inl EmptyDataError"
  by (simp add: main_def)

text \<open>
  C2 (as the code has it). When matches\_clean.csv is missing the run exits with status
  1, and when the file has no columns to parse the run ends in \<open>EmptyDataError\<close>; in
  both cases no document is produced. A dataset that parses but has no row of the
  current season is not refused: with readable optional files the run produces a
  document with zero matches, an empty league table and no cumulative series.
\<close>

theorem match_dataset_missing_or_empty:
  "(matches_csv inp = Missing \<longrightarrow> main u now inp = Inl (SysExit 1))
   \<and> (matches_csv inp = NoColumns \<longrightarrow> main u now inp = Inl EmptyDataError)
   \<and> (matches_csv inp = Rows df \<and> filter (\<lambda>m. season m = CURRENT_SEASON) df = []
        \<and> players_csv inp \<noteq> NoColumns \<and> load_xg inp = Inr xg_dfs \<longrightarrow>
        (\<exists>doc. main u now inp = Inr doc
           \<and> total_matches doc = 0
           \<and> league_table_section doc = []
           \<and> cumulative_points_section doc = []
           \<and> doc_season_status doc =
                \<lparr>matches_played = 0, matches_total = 380, matchdays_played = 0,
                 matchdays_total = 38, is_complete = False, last_match_date = []\<rparr>))"
proof (intro conjI impI)
  assume "matches_csv inp = Missing"
  then show "main u now inp = Inl (SysExit 1)" by (rule main_Missing)
next
  assume "matches_csv inp = NoColumns"
  then show "main u now inp = Inl EmptyDataError" by (rule main_NoColumns)
next
  assume a: "matches_csv inp = Rows df \<and> filter (\<lambda>m. season m = CURRENT_SEASON) df = []
        \<and> players_csv inp \<noteq> NoColumns \<and> load_xg inp = Inr xg_dfs"
  then have m: "matches_csv inp = Rows df" and e: "filter (\<lambda>m. season m = CURRENT_SEASON) df = []"
    and p: "players_csv inp \<noteq> NoColumns" and x: "load_xg inp = Inr xg_dfs"
    by simp_all
  from main_readable [OF m p x, of u now]
  obtain doc tbl where doc: "main u now inp = Inr doc"
    and f: "league_table (filter (\<lambda>m. season m = CURRENT_SEASON) df) = Inr tbl"
      "league_table_section doc = tbl"
      "total_matches doc = len (filter (\<lambda>m. season m = CURRENT_SEASON) df)"
      "doc_season_status doc = season_status_of (filter (\<lambda>m. season m = CURRENT_SEASON) df)"
      "cumulative_points_section doc
           = cumulative_points (filter (\<lambda>m. season m = CURRENT_SEASON) df)"
    by blast
  from f have "total_matches doc = 0" "league_table_section doc = []"
    "cumulative_points_section doc = []"
    "doc_season_status doc =
                \<lparr>matches_played = 0, matches_total = 380, matchdays_played = 0,
                 matchdays_total = 38, is_complete = False, last_match_date = []\<rparr>"
    unfolding e by (simp_all add: len_def season_status_of_Nil)
  with doc show "\<exists>doc. main u now inp = Inr doc
           \<and> total_matches doc = 0
           \<and> league_table_section doc = []
           \<and> cumulative_points_section doc = []
           \<and> doc_season_status doc =
                \<lparr>matches_played = 0, matches_total = 380, matchdays_played = 0,
                 matchdays_total = 38, is_complete = False, last_match_date = []\<rparr>"
    by blast
qed

text \<open>
  C2 as stated fails for a match dataset with a header and no rows: the document is
  produced.
\<close>

theorem match_dataset_empty_counterexample:
  "main ascii_tables ''2026-01-10T12:00:00'' ex_no_rows
     = Inr \<lparr>generated_at = ''2026-01-10T12:00:00'', doc_season = ''2025-26'',
            source = ''football-data.co.uk'', total_matches = 0,
            doc_season_status =
              \<lparr>matches_played = 0, matches_total = 380, matchdays_played = 0,
               matchdays_total = 38, is_complete = False, last_match_date = []\<rparr>,
            league_table_section = [], cumulative_points_section = [],
            xg_table = None, xg_vs_actual = None, shot_quality = None,
            player_leaderboards = None, money_vs_points = None\<rparr>"
  by code_simp

theorem match_dataset_missing_or_empty_witness:
  "main ascii_tables ''2026-01-10T12:00:00'' ex_no_files = Inl (SysExit 1)
   \<and> main ascii_tables ''2026-01-10T12:00:00'' ex_no_columns = Inl EmptyDataError
   \<and> (\<exists>doc. main ascii_tables ''2026-01-10T12:00:00'' ex_no_rows = Inr doc
         \<and> total_matches doc = 0 \<and> league_table_section doc = []
         \<and> cumulative_points_section doc = [])"
proof -
  have h1: "matches_csv ex_no_files = Missing"
    by (simp add: ex_no_files_def)
  have h2: "matches_csv ex_no_columns = NoColumns"
    by (simp add: ex_no_columns_def)
  have h3: "matches_csv ex_no_rows = Rows [] \<and> filter (\<lambda>m. season m = CURRENT_SEASON) [] = []
        \<and> players_csv ex_no_rows \<noteq> NoColumns \<and> load_xg ex_no_rows = Inr None"
    by (simp add: ex_no_rows_def load_xg_def)
  from match_dataset_missing_or_empty [of ex_no_files ascii_tables "''2026-01-10T12:00:00''"] h1
  have 1: "main ascii_tables ''2026-01-10T12:00:00'' ex_no_files = Inl (SysExit 1)"
    by blast
  from match_dataset_missing_or_empty [of ex_no_columns ascii_tables "''2026-01-10T12:00:00''"] h2
  have 2: "main ascii_tables ''2026-01-10T12:00:00'' ex_no_columns = Inl EmptyDataError"
    by blast
  from match_dataset_missing_or_empty
         [of ex_no_rows ascii_tables "''2026-01-10T12:00:00''" "[]" None] h3
  have 3: "\<exists>doc. main ascii_tables ''2026-01-10T12:00:00'' ex_no_rows = Inr doc
         \<and> total_matches doc = 0 \<and> league_table_section doc = []
         \<and> cumulative_points_section doc = []"
    by blast
  from 1 2 3 show ?thesis by blast
qed

section \<open>An absent or empty fantasy dataset\<close>

lemma build_leaderboards_Nil:
  "build_leaderboards u idx [] =
     Inr \<lparr>goal_scorers = [], assist_leaders = [], iron_men = [],
          goals_by_position =
            [\<lparr>pr_position = ''FWD'', pr_total_goals = 0, pr_total_assists = 0,
              player_count = 0, pr_avg_goals = 0\<rparr>,
             \<lparr>pr_position = ''MID'', pr_total_goals = 0, pr_total_assists = 0,
              player_count = 0, pr_avg_goals = 0\<rparr>,
             \<lparr>pr_position = ''DEF'', pr_total_goals = 0, pr_total_assists = 0,
              player_count = 0, pr_avg_goals = 0\<rparr>,
             \<lparr>pr_position = ''GK'', pr_total_goals = 0, pr_total_assists = 0,
              player_count = 0, pr_avg_goals = 0\<rparr>],
          best_value = [], most_cards = []\<rparr>"
  by (simp add: build_leaderboards_def goals_by_pos_def Let_def len_def safe_int_def
        safe_float_def)

lemma money_vs_points_of_Nil: "money_vs_points_of tbl [] = Inr None"
  by (simp add: money_vs_points_of_def squad_values_def List.map_filter_simps)

text \<open>
  C3 (as the code has it). With players.csv absent, the player-leaderboards and
  money-vs-points sections are both null. With players.csv present but without rows,
  money-vs-points is null, while the player-leaderboards section is not: it is computed
  over the empty data, every leaderboard empty and the by-position list with its four
  rows.
\<close>

theorem fantasy_dataset_absent_or_empty:
  "matches_csv inp = Rows df \<and> load_xg inp = Inr xg_dfs \<longrightarrow>
     (players_csv inp = Missing \<longrightarrow>
        (\<exists>doc. main u now inp = Inr doc
           \<and> player_leaderboards doc = None \<and> money_vs_points doc = None))
     \<and> (players_csv inp = Rows [] \<longrightarrow>
        (\<exists>doc lb. main u now inp = Inr doc
           \<and> player_leaderboards doc = Some lb
           \<and> goal_scorers lb = [] \<and> assist_leaders lb = [] \<and> iron_men lb = []
           \<and> map pr_position (goals_by_position lb) = [''FWD'', ''MID'', ''DEF'', ''GK'']
           \<and> best_value lb = [] \<and> most_cards lb = []
           \<and> money_vs_points doc = None))"
proof (intro impI conjI)
  assume a: "matches_csv inp = Rows df \<and> load_xg inp = Inr xg_dfs"
    and p: "players_csv inp = Missing"
  from a have m: "matches_csv inp = Rows df" and x: "load_xg inp = Inr xg_dfs"
    by simp_all
  from p have pn: "players_csv inp \<noteq> NoColumns" by simp
  from main_readable [OF m pn x, of u now] p
  show "\<exists>doc. main u now inp = Inr doc
           \<and> player_leaderboards doc = None \<and> money_vs_points doc = None"
    by auto
next
  assume a: "matches_csv inp = Rows df \<and> load_xg inp = Inr xg_dfs"
    and p: "players_csv inp = Rows []"
  from a have m: "matches_csv inp = Rows df" and x: "load_xg inp = Inr xg_dfs"
    by simp_all
  from p have pn: "players_csv inp \<noteq> NoColumns" by simp
  from main_readable [OF m pn x, of u now] p
  obtain doc tbl lb where doc: "main u now inp = Inr doc"
    and lb: "build_leaderboards u (build_xg_index u (map_option snd xg_dfs)) [] = Inr lb"
      "player_leaderboards doc = Some lb"
    and mv: "money_vs_points_of tbl [] = Inr (money_vs_points doc)"
    by auto
  from lb(1) have "goal_scorers lb = []" "assist_leaders lb = []" "iron_men lb = []"
    "map pr_position (goals_by_position lb) = [''FWD'', ''MID'', ''DEF'', ''GK'']"
    "best_value lb = []" "most_cards lb = []"
    unfolding build_leaderboards_Nil by auto
  moreover from mv have "money_vs_points doc = None"
    unfolding money_vs_points_of_Nil by simp
  ultimately show "\<exists>doc lb. main u now inp = Inr doc
           \<and> player_leaderboards doc = Some lb
           \<and> goal_scorers lb = [] \<and> assist_leaders lb = [] \<and> iron_men lb = []
           \<and> map pr_position (goals_by_position lb) = [''FWD'', ''MID'', ''DEF'', ''GK'']
           \<and> best_value lb = [] \<and> most_cards lb = []
           \<and> money_vs_points doc = None"
    using doc lb(2) by (intro exI [of _ doc] exI [of _ lb]) simp
qed

text \<open>
  C3 as stated fails for a players.csv with a header and no rows: the leaderboards
  section is a populated structure, not null.
\<close>

theorem fantasy_dataset_empty_counterexample:
  "map_sum id (\<lambda>d. (player_leaderboards d, money_vs_points d))
     (main ascii_tables ''2026-01-10T12:00:00'' ex_no_players)
   = Inr (Some \<lparr>goal_scorers = [], assist_leaders = [], iron_men = [],
                goals_by_position =
                  [\<lparr>pr_position = ''FWD'', pr_total_goals = 0, pr_total_assists = 0,
                    player_count = 0, pr_avg_goals = 0\<rparr>,
                   \<lparr>pr_position = ''MID'', pr_total_goals = 0, pr_total_assists = 0,
                    player_count = 0, pr_avg_goals = 0\<rparr>,
                   \<lparr>pr_position = ''DEF'', pr_total_goals = 0, pr_total_assists = 0,
                    player_count = 0, pr_avg_goals = 0\<rparr>,
                   \<lparr>pr_position = ''GK'', pr_total_goals = 0, pr_total_assists = 0,
                    player_count = 0, pr_avg_goals = 0\<rparr>],
                best_value = [], most_cards = []\<rparr>,
          None)"
  by code_simp

theorem fantasy_dataset_absent_or_empty_witness:
  "(\<exists>doc. main ascii_tables ''2026-01-10T12:00:00'' ex_players_missing = Inr doc
        \<and> player_leaderboards doc = None \<and> money_vs_points doc = None)
   \<and> (\<exists>doc lb. main ascii_tables ''2026-01-10T12:00:00'' ex_no_players = Inr doc
        \<and> player_leaderboards doc = Some lb \<and> goal_scorers lb = []
        \<and> money_vs_points doc = None)"
proof -
  have h1: "matches_csv ex_players_missing = Rows ex_season
            \<and> load_xg ex_players_missing = Inr None"
    "players_csv ex_players_missing = Missing"
    by (simp_all add: ex_players_missing_def load_xg_def)
  have h2: "matches_csv ex_no_players = Rows ex_season \<and> load_xg ex_no_players = Inr None"
    "players_csv ex_no_players = Rows []"
    by (simp_all add: ex_no_players_def load_xg_def)
  from fantasy_dataset_absent_or_empty
         [of ex_players_missing ex_season None ascii_tables "''2026-01-10T12:00:00''"] h1
  have 1: "\<exists>doc. main ascii_tables ''2026-01-10T12:00:00'' ex_players_missing = Inr doc
        \<and> player_leaderboards doc = None \<and> money_vs_points doc = None"
    by blast
  from fantasy_dataset_absent_or_empty
         [of ex_no_players ex_season None ascii_tables "''2026-01-10T12:00:00''"] h2
  have 2: "\<exists>doc lb. main ascii_tables ''2026-01-10T12:00:00'' ex_no_players = Inr doc
        \<and> player_leaderboards doc = Some lb \<and> goal_scorers lb = []
        \<and> money_vs_points doc = None"
    by blast
  from 1 2 show ?thesis by blast
qed

section \<open>Running the transform twice\<close>






section \<open>The money-versus-points regression\<close>











section \<open>Player name reconciliation\<close>

lemma first_hit_map: "first_hit f (map g xs) = first_hit (\<lambda>x. f (g x)) xs"
  by (induction xs) (simp_all split: option.split)

lemma first_hit_find:
  "map_option snd (find (\<lambda>(n, d). P n) xs)
     = first_hit (\<lambda>(n, d). if P n then Some d else None) xs"
  by (induction xs) (auto split: option.split)

lemma first_hit_Some:
  "first_hit f xs = Some r \<Longrightarrow> \<exists>x \<in> set xs. f x = Some r"
  by (induction xs) (auto split: option.splits)

lemma first_hit_None:
  "first_hit f xs = None \<longleftrightarrow> (\<forall>x \<in> set xs. f x = None)"
  by (induction xs) (auto split: option.splits)

lemma enrich_refines:
  "enrich u idx row =
     enrich_by_strategies u idx (safe_str (player_name row)) (safe_str (full_name row))
       (p_team row)"
  by (simp add: enrich_def enrich_by_strategies_def strategies_def strategy_short_name_def
        strategy_full_name_def strategy_last_name_def strategy_dot_tokens_def
        strategy_substring_def Let_def safe_str_def first_hit_map first_hit_find
        split: option.split)

lemma index_sound_empty: "index_sound u S empty_index"
  by (simp add: index_sound_def empty_index_def)

lemma index_team_sound:
  assumes "index_sound u S idx" and "xr \<in> S" and "t \<in> set (teams_of_player u xr)"
  shows "index_sound u S (index_team n l nn (xg_data_of xr) t idx)"
proof -
  let ?idx' = "index_team n l nn (xg_data_of xr) t idx"
  have by_name: "\<exists>xr \<in> S. t' \<in> set (teams_of_player u xr) \<and> d = xg_data_of xr"
    if "xg_by_name ?idx' (n', t') = Some d" for n' t' d
    using that assms unfolding index_sound_def index_team_def
    by (auto split: if_splits)
  have by_last: "\<exists>xr \<in> S. t' \<in> set (teams_of_player u xr) \<and> d = xg_data_of xr"
    if "xg_by_last ?idx' (l', t') = Some d" for l' t' d
    using that assms unfolding index_sound_def index_team_def
    by (auto split: if_splits)
  have by_team: "\<exists>xr \<in> S. t' \<in> set (teams_of_player u xr) \<and> d = xg_data_of xr"
    if ls: "xg_by_team ?idx' t' = Some ls" "(n', d) \<in> set ls" for t' ls n' d
  proof (cases "t' = t")
    case False
    with ls have "xg_by_team idx t' = Some ls"
      by (simp add: index_team_def)
    with ls(2) assms(1) show ?thesis
      unfolding index_sound_def by blast
  next
    case True
    show ?thesis
    proof (cases "xg_by_team idx t")
      case None
      with True ls have "d = xg_data_of xr"
        by (auto simp: index_team_def)
      with True assms(2,3) show ?thesis by blast
    next
      case (Some old)
      with True ls have "(n', d) \<in> set old \<or> d = xg_data_of xr"
        by (auto simp: index_team_def)
      then show ?thesis
      proof
        assume "(n', d) \<in> set old"
        with Some True assms(1) show ?thesis
          unfolding index_sound_def by blast
      next
        assume "d = xg_data_of xr"
        with True assms(2,3) show ?thesis by blast
      qed
    qed
  qed
  show ?thesis
    unfolding index_sound_def using by_name by_last by_team by blast
qed

lemma fold_index_team_sound:
  assumes "index_sound u S idx" and "xr \<in> S" and "set ts \<subseteq> set (teams_of_player u xr)"
  shows "index_sound u S (fold (index_team n l nn (xg_data_of xr)) ts idx)"
  using assms
proof (induction ts arbitrary: idx)
  case Nil
  then show ?case by simp
next
  case (Cons t ts)
  from Cons.prems have "index_sound u S (index_team n l nn (xg_data_of xr) t idx)"
    by (intro index_team_sound) simp_all
  with Cons show ?case by simp
qed

lemma index_player_sound:
  "index_sound u S idx \<Longrightarrow> xr \<in> S \<Longrightarrow> index_sound u S (index_player u xr idx)"
  unfolding index_player_def by (rule fold_index_team_sound) simp_all

lemma fold_index_player_sound:
  "index_sound u S idx \<Longrightarrow> set rows \<subseteq> S \<Longrightarrow> index_sound u S (fold (index_player u) rows idx)"
proof (induction rows arbitrary: idx)
  case Nil
  then show ?case by simp
next
  case (Cons xr rows)
  from Cons.prems have "index_sound u S (index_player u xr idx)"
    by (intro index_player_sound) simp_all
  with Cons show ?case by simp
qed

lemma build_xg_index_sound:
  "index_sound u {xr \<in> set rows. xp_player_name xr \<noteq> None} (build_xg_index u (Some rows))"
  unfolding build_xg_index_def option.case
  by (rule fold_index_player_sound [OF index_sound_empty]) auto

lemma enrich_source:
  assumes "enrich u idx row = Some d"
  shows "(\<exists>n. xg_by_name idx (n, p_team row) = Some d)
       \<or> (\<exists>l. xg_by_last idx (l, p_team row) = Some d)
       \<or> (\<exists>ls n. xg_by_team idx (p_team row) = Some ls \<and> (n, d) \<in> set ls)"
proof -
  let ?short = "safe_str (player_name row)" and ?full = "safe_str (full_name row)"
  from assms have "first_hit (\<lambda>strategy. strategy u idx ?short ?full (p_team row)) strategies
                     = Some d"
    by (simp add: enrich_refines enrich_by_strategies_def)
  from first_hit_Some [OF this] obtain s
    where s: "s \<in> set strategies" "s u idx ?short ?full (p_team row) = Some d"
    by blast
  from s(1) consider "s = strategy_short_name" | "s = strategy_full_name"
    | "s = strategy_last_name" | "s = strategy_dot_tokens" | "s = strategy_substring"
    unfolding strategies_def by fastforce
  then show ?thesis
  proof cases
    case 1
    with s(2) show ?thesis by (auto simp: strategy_short_name_def)
  next
    case 2
    with s(2) show ?thesis by (auto simp: strategy_full_name_def split: if_splits)
  next
    case 3
    with s(2) show ?thesis by (auto simp: strategy_last_name_def)
  next
    case 4
    with s(2) show ?thesis
      by (auto simp: strategy_dot_tokens_def split: if_splits dest!: first_hit_Some)
  next
    case 5
    with s(2) show ?thesis
      by (auto simp: strategy_substring_def split: if_splits option.splits dest!: first_hit_Some)
  qed
qed

lemma enrich_team_scoped:
  assumes "enrich u (build_xg_index u (Some rows)) row = Some d"
  shows "\<exists>xr \<in> set rows. xp_player_name xr \<noteq> None
           \<and> p_team row \<in> set (teams_of_player u xr) \<and> d = xg_data_of xr"
  using enrich_source [OF assms] build_xg_index_sound [of u rows]
  unfolding index_sound_def by blast

lemma index_team_keeps:
  assumes "indexed_under u idx xr t'"
  shows "indexed_under u (index_team n l nn d t idx) xr t'"
proof -
  from assms obtain ls where ls: "xg_by_team idx t' = Some ls"
    "(name_norm_of u xr, xg_data_of xr) \<in> set ls"
    unfolding indexed_under_def by blast
  have "\<exists>ls'. xg_by_team (index_team n l nn d t idx) t' = Some ls'
              \<and> (name_norm_of u xr, xg_data_of xr) \<in> set ls'"
    using ls by (cases "t' = t") (simp_all add: index_team_def)
  moreover have "xg_by_name (index_team n l nn d t idx) (safe_str (xp_player_name xr), t') \<noteq> None"
    "xg_by_last (index_team n l nn d t idx) (last_of u xr, t') \<noteq> None"
    using assms unfolding indexed_under_def by (simp_all add: index_team_def)
  ultimately show ?thesis
    unfolding indexed_under_def by blast
qed

lemma index_team_adds:
  "indexed_under u
     (index_team (safe_str (xp_player_name xr)) (last_of u xr) (name_norm_of u xr)
        (xg_data_of xr) t idx) xr t"
  unfolding indexed_under_def by (simp add: index_team_def)

lemma fold_index_team_keeps:
  "indexed_under u idx xr t' \<Longrightarrow> indexed_under u (fold (index_team n l nn d) ts idx) xr t'"
  by (induction ts arbitrary: idx) (simp_all add: index_team_keeps)

lemma fold_index_team_adds:
  "t \<in> set ts \<Longrightarrow>
     indexed_under u
       (fold (index_team (safe_str (xp_player_name xr)) (last_of u xr) (name_norm_of u xr)
                (xg_data_of xr)) ts idx) xr t"
proof (induction ts arbitrary: idx)
  case Nil
  then show ?case by simp
next
  case (Cons a ts)
  show ?case
  proof (cases "t = a")
    case True
    then show ?thesis
      by (simp add: fold_index_team_keeps index_team_adds)
  next
    case False
    with Cons.prems have "t \<in> set ts" by simp
    then show ?thesis
      using Cons.IH by simp
  qed
qed

lemma index_player_keeps:
  "indexed_under u idx xr t \<Longrightarrow> indexed_under u (index_player u xr' idx) xr t"
  unfolding index_player_def by (rule fold_index_team_keeps)

lemma index_player_adds:
  "t \<in> set (teams_of_player u xr) \<Longrightarrow> indexed_under u (index_player u xr idx) xr t"
  unfolding index_player_def by (rule fold_index_team_adds)

lemma fold_index_player_keeps:
  "indexed_under u idx xr t \<Longrightarrow> indexed_under u (fold (index_player u) rows idx) xr t"
  by (induction rows arbitrary: idx) (simp_all add: index_player_keeps)

lemma fold_index_player_adds:
  "xr \<in> set rows \<Longrightarrow> t \<in> set (teams_of_player u xr) \<Longrightarrow>
     indexed_under u (fold (index_player u) rows idx) xr t"
proof (induction rows arbitrary: idx)
  case Nil
  then show ?case by simp
next
  case (Cons a rows)
  show ?case
  proof (cases "xr = a")
    case True
    with Cons.prems(2) show ?thesis
      by (simp add: fold_index_player_keeps index_player_adds)
  next
    case False
    with Cons.prems have "xr \<in> set rows" by simp
    then show ?thesis
      using Cons.IH Cons.prems(2) by simp
  qed
qed

lemma build_xg_index_covers:
  assumes "xr \<in> set rows" and "xp_player_name xr \<noteq> None"
    and "t \<in> set (teams_of_player u xr)"
  shows "indexed_under u (build_xg_index u (Some rows)) xr t"
  unfolding build_xg_index_def option.case
  using assms by (intro fold_index_player_adds) simp_all

lemma first_hit_nth:
  "i < length xs \<Longrightarrow> f (xs ! i) = Some d \<Longrightarrow> (\<forall>j<i. f (xs ! j) = None) \<Longrightarrow>
     first_hit f xs = Some d"
proof (induction xs arbitrary: i)
  case Nil
  then show ?case by simp
next
  case (Cons x xs)
  show ?case
  proof (cases i)
    case 0
    with Cons.prems show ?thesis by simp
  next
    case (Suc k)
    with Cons.prems have x: "f x = None" by auto
    from Suc Cons.prems have "k < length xs" "f (xs ! k) = Some d" "\<forall>j<k. f (xs ! j) = None"
      by auto
    from Cons.IH [OF this] x show ?thesis by simp
  qed
qed

lemma first_hit_const_None [simp]: "first_hit (\<lambda>x. None) xs = None"
  by (induction xs) simp_all

lemma enrich_without_xg: "enrich u (build_xg_index u None) row = None"
  unfolding enrich_refines enrich_by_strategies_def first_hit_None strategies_def
  by (simp add: strategy_short_name_def strategy_full_name_def strategy_last_name_def
        strategy_dot_tokens_def strategy_substring_def build_xg_index_def empty_index_def)

text \<open>
  C6. \<open>enrich\<close> is the first hit of the five strategies in their fixed order (exact
  short name and team, exact full name and team, accent-stripped lower-cased last name
  and team, dot-separated tokens longer than two characters as last names, substring
  among the team's candidates): a strategy that hits after all earlier ones missed
  decides the result, and when none hits the result is the empty enrichment. Whatever
  \<open>enrich\<close> returns comes from an xG record that lists the player's team, every named
  xG record is indexed under each of its comma-separated teams, and without the xG
  source the result is always empty. With the record ("Erling Haaland", "Manchester
  City") indexed, "Haaland" of Manchester City misses the two exact strategies and is
  matched by its last name; the same name in a team without candidates gets the empty
  enrichment.
\<close>

theorem enrich_layered_matching:
  "enrich u idx row =
     enrich_by_strategies u idx (safe_str (player_name row)) (safe_str (full_name row))
       (p_team row)
   \<and> (\<forall>i d. i < length strategies
          \<and> (strategies ! i) u idx (safe_str (player_name row)) (safe_str (full_name row))
               (p_team row) = Some d
          \<and> (\<forall>j<i. (strategies ! j) u idx (safe_str (player_name row))
                       (safe_str (full_name row)) (p_team row) = None)
          \<longrightarrow> enrich u idx row = Some d)
   \<and> ((\<forall>s \<in> set strategies. s u idx (safe_str (player_name row)) (safe_str (full_name row))
                               (p_team row) = None)
        \<longrightarrow> enrich u idx row = None)
   \<and> (\<forall>d. enrich u (build_xg_index u (Some xg_rows)) row = Some d \<longrightarrow>
          (\<exists>xr \<in> set xg_rows. xp_player_name xr \<noteq> None
             \<and> p_team row \<in> set (teams_of_player u xr) \<and> d = xg_data_of xr))
   \<and> (\<forall>xr \<in> set xg_rows. \<forall>t \<in> set (teams_of_player u xr).
          xp_player_name xr \<noteq> None \<longrightarrow>
          indexed_under u (build_xg_index u (Some xg_rows)) xr t)
   \<and> enrich u (build_xg_index u None) row = None
   \<and> strategy_short_name ascii_tables ex_index ''Haaland'' [] ''Manchester City'' = None
   \<and> strategy_full_name ascii_tables ex_index ''Haaland'' [] ''Manchester City'' = None
   \<and> strategy_last_name ascii_tables ex_index ''Haaland'' [] ''Manchester City''
        = Some \<lparr>xg = 41 / 2, xa = 9 / 2, shots = 90, key_passes = 25, npxg = 18\<rparr>
   \<and> enrich ascii_tables ex_index ex_haaland
        = Some \<lparr>xg = 41 / 2, xa = 9 / 2, shots = 90, key_passes = 25, npxg = 18\<rparr>
   \<and> enrich ascii_tables ex_index ex_unknown = None"
proof (intro conjI allI impI ballI)
  show "enrich u idx row =
     enrich_by_strategies u idx (safe_str (player_name row)) (safe_str (full_name row))
       (p_team row)"
    by (rule enrich_refines)
next
  fix i d
  assume "i < length strategies
          \<and> (strategies ! i) u idx (safe_str (player_name row)) (safe_str (full_name row))
               (p_team row) = Some d
          \<and> (\<forall>j<i. (strategies ! j) u idx (safe_str (player_name row))
                       (safe_str (full_name row)) (p_team row) = None)"
  then show "enrich u idx row = Some d"
    unfolding enrich_refines enrich_by_strategies_def
    by (intro first_hit_nth [where i = i]) simp_all
next
  assume "\<forall>s \<in> set strategies. s u idx (safe_str (player_name row)) (safe_str (full_name row))
                               (p_team row) = None"
  then show "enrich u idx row = None"
    unfolding enrich_refines enrich_by_strategies_def first_hit_None .
next
  fix d
  assume "enrich u (build_xg_index u (Some xg_rows)) row = Some d"
  then show "\<exists>xr \<in> set xg_rows. xp_player_name xr \<noteq> None
             \<and> p_team row \<in> set (teams_of_player u xr) \<and> d = xg_data_of xr"
    by (rule enrich_team_scoped)
next
  fix xr t
  assume "xr \<in> set xg_rows" "t \<in> set (teams_of_player u xr)" "xp_player_name xr \<noteq> None"
  then show "indexed_under u (build_xg_index u (Some xg_rows)) xr t"
    by (intro build_xg_index_covers)
next
  show "enrich u (build_xg_index u None) row = None"
    by (rule enrich_without_xg)
next
  show "strategy_short_name ascii_tables ex_index ''Haaland'' [] ''Manchester City'' = None"
    by code_simp
next
  show "strategy_full_name ascii_tables ex_index ''Haaland'' [] ''Manchester City'' = None"
    by code_simp
next
  show "strategy_last_name ascii_tables ex_index ''Haaland'' [] ''Manchester City''
        = Some \<lparr>xg = 41 / 2, xa = 9 / 2, shots = 90, key_passes = 25, npxg = 18\<rparr>"
    by code_simp
next
  show "enrich ascii_tables ex_index ex_haaland
        = Some \<lparr>xg = 41 / 2, xa = 9 / 2, shots = 90, key_passes = 25, npxg = 18\<rparr>"
    by code_simp
next
  show "enrich ascii_tables ex_index ex_unknown = None"
    by code_simp
qed

theorem enrich_layered_matching_witness:
  "enrich ascii_tables ex_index ex_haaland
     = Some \<lparr>xg = 41 / 2, xa = 9 / 2, shots = 90, key_passes = 25, npxg = 18\<rparr>
   \<and> (\<exists>xr \<in> set (ex_xg_players @ [ex_xg_sterling]). xp_player_name xr \<noteq> None
         \<and> p_team ex_haaland \<in> set (teams_of_player ascii_tables xr)
         \<and> \<lparr>xg = 41 / 2, xa = 9 / 2, shots = 90, key_passes = 25, npxg = 18\<rparr> = xg_data_of xr)
   \<and> enrich ascii_tables ex_index ex_unknown = None
   \<and> indexed_under ascii_tables ex_index ex_xg_sterling ''Arsenal''"
proof -
  let ?D = "\<lparr>xg = 41 / 2, xa = 9 / 2, shots = 90, key_passes = 25, npxg = 18\<rparr>"
  let ?rows = "ex_xg_players @ [ex_xg_sterling]"
  note thm_h = enrich_layered_matching [of ascii_tables ex_index ex_haaland ?rows]
  note thm_u = enrich_layered_matching [of ascii_tables ex_index ex_unknown ?rows]
  have idx: "build_xg_index ascii_tables (Some ?rows) = ex_index"
    by (simp add: ex_index_def)
  have n: "safe_str (player_name ex_haaland) = ''Haaland''"
    "safe_str (full_name ex_haaland) = []" "p_team ex_haaland = ''Manchester City''"
    by (simp_all add: ex_haaland_def safe_str_def)
  have s0: "strategy_short_name ascii_tables ex_index ''Haaland'' [] ''Manchester City'' = None"
    and s1: "strategy_full_name ascii_tables ex_index ''Haaland'' [] ''Manchester City'' = None"
    and s2: "strategy_last_name ascii_tables ex_index ''Haaland'' [] ''Manchester City'' = Some ?D"
    by (rule thm_h [THEN conjunct2, THEN conjunct2, THEN conjunct2, THEN conjunct2, THEN conjunct2, THEN conjunct2, THEN conjunct1], rule thm_h [THEN conjunct2, THEN conjunct2, THEN conjunct2, THEN conjunct2, THEN conjunct2, THEN conjunct2, THEN conjunct2, THEN conjunct1], rule thm_h [THEN conjunct2, THEN conjunct2, THEN conjunct2, THEN conjunct2, THEN conjunct2, THEN conjunct2, THEN conjunct2, THEN conjunct2, THEN conjunct1])
  have before: "\<forall>j<2. (strategies ! j) ascii_tables ex_index (safe_str (player_name ex_haaland))
                       (safe_str (full_name ex_haaland)) (p_team ex_haaland) = None"
    unfolding n by (auto simp: less_2_cases_iff strategies_def s0 s1)
  have at: "(2::nat) < length strategies
            \<and> (strategies ! 2) ascii_tables ex_index (safe_str (player_name ex_haaland))
                 (safe_str (full_name ex_haaland)) (p_team ex_haaland) = Some ?D"
    unfolding n by (simp add: strategies_def s2)
  from thm_h [THEN conjunct2, THEN conjunct1] have "\<forall>i d. i < length strategies
          \<and> (strategies ! i) ascii_tables ex_index (safe_str (player_name ex_haaland))
               (safe_str (full_name ex_haaland)) (p_team ex_haaland) = Some d
          \<and> (\<forall>j<i. (strategies ! j) ascii_tables ex_index (safe_str (player_name ex_haaland))
                       (safe_str (full_name ex_haaland)) (p_team ex_haaland) = None)
          \<longrightarrow> enrich ascii_tables ex_index ex_haaland = Some d"
    .
  with at before have hit: "enrich ascii_tables ex_index ex_haaland = Some ?D"
    by blast
  from thm_h [THEN conjunct2, THEN conjunct2, THEN conjunct2, THEN conjunct1] have "\<forall>d. enrich ascii_tables (build_xg_index ascii_tables (Some ?rows)) ex_haaland
                        = Some d \<longrightarrow>
          (\<exists>xr \<in> set ?rows. xp_player_name xr \<noteq> None
             \<and> p_team ex_haaland \<in> set (teams_of_player ascii_tables xr) \<and> d = xg_data_of xr)"
    .
  with hit have scoped: "\<exists>xr \<in> set ?rows. xp_player_name xr \<noteq> None
             \<and> p_team ex_haaland \<in> set (teams_of_player ascii_tables xr) \<and> ?D = xg_data_of xr"
    unfolding idx by blast
  have all_none: "\<forall>s \<in> set strategies.
      s ascii_tables ex_index (safe_str (player_name ex_unknown)) (safe_str (full_name ex_unknown))
        (p_team ex_unknown) = None"
    by code_simp
  from thm_u [THEN conjunct2, THEN conjunct2, THEN conjunct1] have "(\<forall>s \<in> set strategies.
      s ascii_tables ex_index (safe_str (player_name ex_unknown)) (safe_str (full_name ex_unknown))
        (p_team ex_unknown) = None) \<longrightarrow> enrich ascii_tables ex_index ex_unknown = None"
    .
  with all_none have miss: "enrich ascii_tables ex_index ex_unknown = None"
    by blast
  have mem: "ex_xg_sterling \<in> set ?rows" "xp_player_name ex_xg_sterling \<noteq> None"
    by (simp_all add: ex_xg_sterling_def)
  have tm: "''Arsenal'' \<in> set (teams_of_player ascii_tables ex_xg_sterling)"
    by code_simp
  from thm_h [THEN conjunct2, THEN conjunct2, THEN conjunct2, THEN conjunct2, THEN conjunct1] have "\<forall>xr \<in> set ?rows. \<forall>t \<in> set (teams_of_player ascii_tables xr).
          xp_player_name xr \<noteq> None \<longrightarrow>
          indexed_under ascii_tables (build_xg_index ascii_tables (Some ?rows)) xr t"
    .
  with mem tm have cov: "indexed_under ascii_tables ex_index ex_xg_sterling ''Arsenal''"
    unfolding idx by blast
  from hit scoped miss cov show ?thesis
    by (intro conjI)
qed

end
